theory Spec2Isabelle
  imports Complex_Main
begin

section \<open>Scalars and tensors\<close>

text \<open>
  The values of Python floats and of tensor entries. A finite value is a real number
  (rounding is not modelled: every finite result is the exact one), and the three special
  values of IEEE arithmetic are constructors of their own, so that a division by zero and
  a comparison with NaN are branches of the model. Signed zeros are not told apart: a
  zero divisor counts as \<open>+0\<close>.
\<close>

datatype fval = Num real | PosInf | NegInf | NaN

definition inf_of_sign :: "real \<Rightarrow> fval" where
  "inf_of_sign r = (if r = 0 then NaN else if 0 < r then PosInf else NegInf)"

fun sign_of :: "fval \<Rightarrow> real" where
  "sign_of (Num a) = sgn a"
| "sign_of PosInf = 1"
| "sign_of NegInf = - 1"
| "sign_of NaN = 0"

fun fneg :: "fval \<Rightarrow> fval" where
  "fneg (Num a) = Num (- a)"
| "fneg PosInf = NegInf"
| "fneg NegInf = PosInf"
| "fneg NaN = NaN"

fun fadd :: "fval \<Rightarrow> fval \<Rightarrow> fval" where
  "fadd NaN y = NaN"
| "fadd x NaN = NaN"
| "fadd (Num a) (Num b) = Num (a + b)"
| "fadd (Num a) y = y"
| "fadd x (Num b) = x"
| "fadd PosInf PosInf = PosInf"
| "fadd NegInf NegInf = NegInf"
| "fadd PosInf NegInf = NaN"
| "fadd NegInf PosInf = NaN"

definition fsub :: "fval \<Rightarrow> fval \<Rightarrow> fval" where
  "fsub x y = fadd x (fneg y)"

fun fmul :: "fval \<Rightarrow> fval \<Rightarrow> fval" where
  "fmul NaN y = NaN"
| "fmul x NaN = NaN"
| "fmul (Num a) (Num b) = Num (a * b)"
| "fmul x y = inf_of_sign (sign_of x * sign_of y)"

fun fdiv :: "fval \<Rightarrow> fval \<Rightarrow> fval" where
  "fdiv NaN y = NaN"
| "fdiv x NaN = NaN"
| "fdiv (Num a) (Num b) = (if b = 0 then inf_of_sign a else Num (a / b))"
| "fdiv (Num a) y = Num 0"
| "fdiv x (Num b) = inf_of_sign (sign_of x * (if b < 0 then - 1 else 1))"
| "fdiv x y = NaN"

text \<open>The comparisons \<open>>\<close> and \<open>==\<close>: false whenever an operand is NaN.\<close>

fun fgt :: "fval \<Rightarrow> fval \<Rightarrow> bool" where
  "fgt (Num a) (Num b) = (b < a)"
| "fgt PosInf (Num b) = True"
| "fgt PosInf NegInf = True"
| "fgt (Num a) NegInf = True"
| "fgt x y = False"

fun feq :: "fval \<Rightarrow> fval \<Rightarrow> bool" where
  "feq (Num a) (Num b) = (a = b)"
| "feq PosInf PosInf = True"
| "feq NegInf NegInf = True"
| "feq x y = False"

text \<open>
  A tensor is the list of its entries in row-major order; a \<open>[B, 10]\<close> matrix of
  labels or of probabilities has \<open>B * 10\<close> entries. The operations are the elementwise
  ones the validation step uses: \<open>preds > 0.5\<close>, \<open>.float()\<close>, \<open>preds == labels\<close>,
  \<open>preds * labels\<close>, \<open>1 - labels\<close> and \<open>.sum()\<close> (of a float tensor, and of a
  boolean one, which counts).
\<close>

type_synonym tensor = "fval list"

definition t_gt :: "tensor \<Rightarrow> fval \<Rightarrow> bool list" where
  "t_gt t c = map (\<lambda>x. fgt x c) t"

definition t_float :: "bool list \<Rightarrow> tensor" where
  "t_float bs = map (\<lambda>b. if b then Num 1 else Num 0) bs"

definition t_eq :: "tensor \<Rightarrow> tensor \<Rightarrow> bool list" where
  "t_eq a b = map2 feq a b"

definition t_mul :: "tensor \<Rightarrow> tensor \<Rightarrow> tensor" where
  "t_mul a b = map2 fmul a b"

definition t_rsub :: "fval \<Rightarrow> tensor \<Rightarrow> tensor" where
  "t_rsub c t = map (\<lambda>x. fsub c x) t"

primrec t_sum :: "tensor \<Rightarrow> fval" where
  "t_sum [] = Num 0"
| "t_sum (x # xs) = fadd x (t_sum xs)"

definition b_sum :: "bool list \<Rightarrow> nat" where
  "b_sum bs = length (filter (\<lambda>b. b) bs)"

section \<open>The validation metrics (validation_step, lines 100 to 107)\<close>

record metrics =
  m_acc :: fval
  m_tp :: fval
  m_fp :: fval
  m_fn :: fval
  m_precision :: fval
  m_recall :: fval
  m_f1 :: fval

text \<open>
  \<^verbatim>\<open>
  preds = (preds > 0.5).float()
  acc = (preds == labels).sum() / (batch_size * 10)
  tp = (preds * labels).sum()
  fp = (preds * (1 - labels)).sum()
  fn = ((1 - preds) * labels).sum()
  precision = tp / (tp + fp)
  recall = tp / (tp + fn)
  f1 = 2 * precision * recall / (precision + recall)
  \<close>
\<close>

definition calculate_metrics :: "tensor \<Rightarrow> tensor \<Rightarrow> nat \<Rightarrow> metrics" where
  "calculate_metrics preds0 labels batch_size =
     (let preds = t_float (t_gt preds0 (Num 0.5));
          acc = fdiv (Num (real (b_sum (t_eq preds labels)))) (Num (real (batch_size * 10)));
          tp = t_sum (t_mul preds labels);
          fp = t_sum (t_mul preds (t_rsub (Num 1) labels));
          fn = t_sum (t_mul (t_rsub (Num 1) preds) labels);
          precision = fdiv tp (fadd tp fp);
          recall = fdiv tp (fadd tp fn);
          f1 = fdiv (fmul (fmul (Num 2) precision) recall) (fadd precision recall)
      in \<lparr>m_acc = acc, m_tp = tp, m_fp = fp, m_fn = fn,
          m_precision = precision, m_recall = recall, m_f1 = f1\<rparr>)"

section \<open>The metric averager\<close>

text \<open>
  Modelled from the spec: the class Averager of tools/utils.py, which is not among the
  source files. It holds a running sum and a count; \<open>add\<close> accumulates a value and
  increments the count, \<open>val\<close> returns sum / count (NaN when the count is 0) and
  \<open>reset\<close> zeroes both.
\<close>

record averager =
  avg_sum :: fval
  avg_count :: nat

definition Averager :: averager where
  "Averager = \<lparr>avg_sum = Num 0, avg_count = 0\<rparr>"

definition Averager_add :: "fval \<Rightarrow> averager \<Rightarrow> averager" where
  "Averager_add x a = a\<lparr>avg_sum := fadd (avg_sum a) x, avg_count := avg_count a + 1\<rparr>"

definition Averager_val :: "averager \<Rightarrow> fval" where
  "Averager_val a = fdiv (avg_sum a) (Num (real (avg_count a)))"

definition Averager_reset :: "averager \<Rightarrow> averager" where
  "Averager_reset a = a\<lparr>avg_sum := Num 0, avg_count := 0\<rparr>"

section \<open>Configuration, datasets and the library\<close>

text \<open>The configuration object \<open>args\<close>, with the options the driver reads.\<close>

record args =
  model :: string
  lr :: fval
  lr_head :: fval
  weight_decay :: fval
  warmup_pct :: fval
  clip_grad :: fval
  epochs :: nat
  batch_size :: nat
  num_workers :: nat
  train_dirs :: "string list"
  val_dirs :: "string list"
  train_full :: bool
  mlp_structures :: "nat list"
  drop_rate :: fval

text \<open>
  Modelled from the spec: create_dataset and create_dataloader of the module dataloaders,
  which is not among the source files. The factory takes directory paths and a
  training/eval flag, and batch size and worker count for a loader; here a dataset and a
  loader are the arguments they were built from. The batches a loader yields come from
  the library (\<open>loader_batches\<close> below).
\<close>

record dataset =
  ds_dirs :: "string list"
  ds_is_train :: bool

record dataloader =
  dl_dataset :: dataset
  dl_batch_size :: nat
  dl_num_workers :: nat
  dl_is_train :: bool

definition create_dataset :: "string list \<Rightarrow> bool \<Rightarrow> dataset" where
  "create_dataset dirs is_train = \<lparr>ds_dirs = dirs, ds_is_train = is_train\<rparr>"

definition create_dataloader :: "dataset \<Rightarrow> nat \<Rightarrow> nat \<Rightarrow> bool \<Rightarrow> dataloader" where
  "create_dataloader ds bs nw is_train =
     \<lparr>dl_dataset = ds, dl_batch_size = bs, dl_num_workers = nw, dl_is_train = is_train\<rparr>"

text \<open>A batch is the triple (images, labels, ids); \<open>images.size(0)\<close> is the number of images.\<close>

type_synonym 'im batch = "'im list \<times> tensor \<times> string list"

datatype error = FileNotFoundError string | RuntimeError string | ValueError string

text \<open>The two optimizers, each with its scheduler: feature extractor and classifier head.\<close>

datatype opt = Feat | Head

text \<open>
  Every call into the framework that has an effect is recorded, in order, in the field
  \<open>calls\<close> of the state: the record is what a test double of the library would see.
\<close>

datatype call =
    TrainerFit dataloader "dataloader option" nat
  | CreateOptimizerV2 opt string fval fval
  | OneCycleLR opt fval nat fval bool
  | ModelTrain
  | ModelEval
  | Forward
  | Criterion
  | ZeroGrad opt
  | ManualBackward
  | ClipGradients opt fval string
  | OptimizerStep opt
  | SchedulerStep opt
  | Log string fval
  | TorchSave string
  | TorchLoad string
  | LoadStateDict
  | Print string
  | PrintValue string fval

text \<open>
  What the library computes is a parameter of the model: \<open>'sd\<close> is a state dict (the
  parameters of the whole network), \<open>'x\<close> the internals of the two optimizers and
  schedulers (gradients, moments, learning rates), \<open>'im\<close> one image.
\<close>

record ('sd, 'x, 'im) torch =
  new_model :: "string \<Rightarrow> nat \<Rightarrow> nat list \<Rightarrow> fval \<Rightarrow> 'sd"
  model_forward :: "'sd \<Rightarrow> bool \<Rightarrow> 'im list \<Rightarrow> error + tensor"
  bce_loss :: "tensor \<Rightarrow> tensor \<Rightarrow> error + fval"
  make_optimizers :: "args \<Rightarrow> 'sd \<Rightarrow> error + 'x"
  zero_grad_f :: "opt \<Rightarrow> 'x \<Rightarrow> 'x"
  backward_f :: "'sd \<Rightarrow> 'im list \<Rightarrow> tensor \<Rightarrow> 'x \<Rightarrow> 'x"
  clip_f :: "opt \<Rightarrow> fval \<Rightarrow> 'x \<Rightarrow> 'x"
  opt_step_f :: "opt \<Rightarrow> 'x \<Rightarrow> 'sd \<Rightarrow> 'sd \<times> 'x"
  sched_step_f :: "opt \<Rightarrow> 'x \<Rightarrow> 'x"
  lr_f :: "opt \<Rightarrow> 'x \<Rightarrow> fval"
  loader_batches :: "dataloader \<Rightarrow> nat \<Rightarrow> 'im batch list"

section \<open>The state\<close>

text \<open>
  The LitModel object (its model's parameters and mode, its optimizers once the trainer
  has configured them, its five averagers and the best F1) together with what its
  methods and the driver affect outside it: the checkpoint files under saved_models/
  (a map from path to the state dict stored there; the directory is taken to exist) and
  the record of calls.
\<close>

record ('sd, 'x) pl_state =
  state_dict :: 'sd
  training :: bool
  optim :: "'x option"
  hparams :: args
  loss_val_avg :: averager
  acc_val_avg :: averager
  f1_val_avg :: averager
  precision_val_avg :: averager
  recall_val_avg :: averager
  automatic_optimization :: bool
  best_f1 :: fval
  files :: "string \<Rightarrow> 'sd option"
  calls :: "call list"

type_synonym ('sd, 'x) res = "(error \<times> ('sd, 'x) pl_state) + ('sd, 'x) pl_state"

text \<open>\<open>LitModel.__init__\<close> (lines 13 to 29), in a world with the checkpoint files \<open>fs\<close>.\<close>

definition LitModel :: "'sd \<Rightarrow> args \<Rightarrow> (string \<Rightarrow> 'sd option) \<Rightarrow> ('sd, 'x) pl_state" where
  "LitModel ori_model args fs =
     \<lparr>state_dict = ori_model, training = True, optim = None, hparams = args,
      loss_val_avg = Averager, acc_val_avg = Averager, f1_val_avg = Averager,
      precision_val_avg = Averager, recall_val_avg = Averager,
      automatic_optimization = False, best_f1 = Num 0,
      files = fs, calls = []\<rparr>"

subsection \<open>The library calls as state transformers\<close>

definition call_lib :: "call \<Rightarrow> ('sd, 'x) pl_state \<Rightarrow> ('sd, 'x) pl_state" where
  "call_lib c s = s\<lparr>calls := calls s @ [c]\<rparr>"

text \<open>Statements run one after the other.\<close>

definition run_all :: "('s \<Rightarrow> 's) list \<Rightarrow> 's \<Rightarrow> 's" where
  "run_all fs s = fold (\<lambda>f. f) fs s"

definition model_train :: "('sd, 'x) pl_state \<Rightarrow> ('sd, 'x) pl_state" where
  "model_train s = call_lib ModelTrain (s\<lparr>training := True\<rparr>)"

definition model_eval :: "('sd, 'x) pl_state \<Rightarrow> ('sd, 'x) pl_state" where
  "model_eval s = call_lib ModelEval (s\<lparr>training := False\<rparr>)"

text \<open>\<open>self.model(images)\<close>: whatever the network raises ends the step.\<close>

definition forward ::
  "('sd, 'x, 'im) torch \<Rightarrow> 'im list \<Rightarrow> ('sd, 'x) pl_state
     \<Rightarrow> (error \<times> ('sd, 'x) pl_state) + (tensor \<times> ('sd, 'x) pl_state)" where
  "forward env images s =
     (case model_forward env (state_dict s) (training s) images of
        Inl e \<Rightarrow> Inl (e, call_lib Forward s)
      | Inr preds \<Rightarrow> Inr (preds, call_lib Forward s))"

text \<open>
  \<open>self.criterion(preds, labels)\<close>, with \<open>nn.BCELoss\<close>: the loss raises ValueError when
  target and input differ in size, so the elementwise operations after it meet tensors
  of one size only.
\<close>

definition criterion ::
  "('sd, 'x, 'im) torch \<Rightarrow> tensor \<Rightarrow> tensor \<Rightarrow> ('sd, 'x) pl_state
     \<Rightarrow> (error \<times> ('sd, 'x) pl_state) + (fval \<times> ('sd, 'x) pl_state)" where
  "criterion env preds labels s =
     (if length labels \<noteq> length preds
      then Inl (ValueError ''Using a target size that is different to the input size'',
                call_lib Criterion s)
      else (case bce_loss env preds labels of
              Inl e \<Rightarrow> Inl (e, call_lib Criterion s)
            | Inr loss \<Rightarrow> Inr (loss, call_lib Criterion s)))"

text \<open>
  \<open>self.optimizers()\<close> and \<open>self.lr_schedulers()\<close>: the handles exist once the trainer
  has called configure_optimizers.
\<close>

definition optimizers :: "('sd, 'x) pl_state \<Rightarrow> error + 'x" where
  "optimizers s =
     (case optim s of
        None \<Rightarrow> Inl (RuntimeError ''LitModel is not attached to a Trainer'')
      | Some x \<Rightarrow> Inr x)"

definition lr_schedulers :: "('sd, 'x) pl_state \<Rightarrow> error + 'x" where
  "lr_schedulers s =
     (case optim s of
        None \<Rightarrow> Inl (RuntimeError ''LitModel is not attached to a Trainer'')
      | Some x \<Rightarrow> Inr x)"

definition zero_grad ::
  "('sd, 'x, 'im) torch \<Rightarrow> opt \<Rightarrow> ('sd, 'x) pl_state \<Rightarrow> ('sd, 'x) pl_state" where
  "zero_grad env opt s =
     call_lib (ZeroGrad opt) (s\<lparr>optim := map_option (zero_grad_f env opt) (optim s)\<rparr>)"

definition manual_backward ::
  "('sd, 'x, 'im) torch \<Rightarrow> 'im list \<Rightarrow> tensor \<Rightarrow> ('sd, 'x) pl_state \<Rightarrow> ('sd, 'x) pl_state" where
  "manual_backward env images labels s =
     call_lib ManualBackward
       (s\<lparr>optim := map_option (backward_f env (state_dict s) images labels) (optim s)\<rparr>)"

definition clip_gradients ::
  "('sd, 'x, 'im) torch \<Rightarrow> opt \<Rightarrow> fval \<Rightarrow> string \<Rightarrow> ('sd, 'x) pl_state
     \<Rightarrow> ('sd, 'x) pl_state" where
  "clip_gradients env opt clip_val algorithm s =
     call_lib (ClipGradients opt clip_val algorithm)
       (s\<lparr>optim := map_option (clip_f env opt clip_val) (optim s)\<rparr>)"

definition optimizer_step ::
  "('sd, 'x, 'im) torch \<Rightarrow> opt \<Rightarrow> ('sd, 'x) pl_state \<Rightarrow> ('sd, 'x) pl_state" where
  "optimizer_step env opt s =
     call_lib (OptimizerStep opt)
       (case optim s of
          None \<Rightarrow> s
        | Some x \<Rightarrow>
            (case opt_step_f env opt x (state_dict s) of
               (sd, x') \<Rightarrow> s\<lparr>state_dict := sd, optim := Some x'\<rparr>))"

definition scheduler_step ::
  "('sd, 'x, 'im) torch \<Rightarrow> opt \<Rightarrow> ('sd, 'x) pl_state \<Rightarrow> ('sd, 'x) pl_state" where
  "scheduler_step env opt s =
     call_lib (SchedulerStep opt) (s\<lparr>optim := map_option (sched_step_f env opt) (optim s)\<rparr>)"

text \<open>\<open>optimizer.param_groups[0]["lr"]\<close>.\<close>

definition current_lr :: "('sd, 'x, 'im) torch \<Rightarrow> opt \<Rightarrow> ('sd, 'x) pl_state \<Rightarrow> fval" where
  "current_lr env opt s = (case optim s of None \<Rightarrow> NaN | Some x \<Rightarrow> lr_f env opt x)"

definition self_log :: "string \<Rightarrow> fval \<Rightarrow> ('sd, 'x) pl_state \<Rightarrow> ('sd, 'x) pl_state" where
  "self_log name v s = call_lib (Log name v) s"

definition print :: "string \<Rightarrow> ('sd, 'x) pl_state \<Rightarrow> ('sd, 'x) pl_state" where
  "print line s = call_lib (Print line) s"

text \<open>A printed f-string with one float in it: the text before the float, and the float.\<close>

definition print_value ::
  "string \<Rightarrow> (('sd, 'x) pl_state \<Rightarrow> fval) \<Rightarrow> ('sd, 'x) pl_state \<Rightarrow> ('sd, 'x) pl_state" where
  "print_value label v s = call_lib (PrintValue label (v s)) s"

definition torch_save :: "'sd \<Rightarrow> string \<Rightarrow> ('sd, 'x) pl_state \<Rightarrow> ('sd, 'x) pl_state" where
  "torch_save sd path s = call_lib (TorchSave path) (s\<lparr>files := (files s)(path \<mapsto> sd)\<rparr>)"

definition torch_load ::
  "string \<Rightarrow> ('sd, 'x) pl_state \<Rightarrow> (error \<times> ('sd, 'x) pl_state) + ('sd \<times> ('sd, 'x) pl_state)" where
  "torch_load path s =
     (case files s path of
        None \<Rightarrow> Inl (FileNotFoundError path, call_lib (TorchLoad path) s)
      | Some sd \<Rightarrow> Inr (sd, call_lib (TorchLoad path) s))"

definition load_state_dict :: "'sd \<Rightarrow> ('sd, 'x) pl_state \<Rightarrow> ('sd, 'x) pl_state" where
  "load_state_dict sd s = call_lib LoadStateDict (s\<lparr>state_dict := sd\<rparr>)"

section \<open>The methods of LitModel\<close>

text \<open>
  \<open>configure_optimizers\<close> (lines 31 to 52): two AdamW optimizers and two one-cycle
  schedules spanning \<open>args.epochs\<close> steps. The constructors belong to the library and may
  raise (OneCycleLR rejects a total step count that is not positive).
\<close>

definition configure_optimizers ::
  "('sd, 'x, 'im) torch \<Rightarrow> ('sd, 'x) pl_state \<Rightarrow> ('sd, 'x) res" where
  "configure_optimizers env self =
     (let a = hparams self;
          s1 = run_all
            [call_lib (CreateOptimizerV2 Feat ''AdamW'' (lr a) (weight_decay a)),
             call_lib (CreateOptimizerV2 Head ''AdamW'' (lr_head a) (weight_decay a)),
             call_lib (OneCycleLR Feat (lr a) (epochs a) (warmup_pct a) False),
             call_lib (OneCycleLR Head (lr_head a) (epochs a) (warmup_pct a) False)] self
      in case make_optimizers env a (state_dict self) of
           Inl e \<Rightarrow> Inl (e, s1)
         | Inr x \<Rightarrow> Inr (s1\<lparr>optim := Some x\<rparr>))"

text \<open>\<open>training_step\<close> (lines 54 to 79).\<close>

definition training_step ::
  "('sd, 'x, 'im) torch \<Rightarrow> 'im batch \<Rightarrow> nat \<Rightarrow> ('sd, 'x) pl_state \<Rightarrow> ('sd, 'x) res" where
  "training_step env batch batch_idx self =
     (case optimizers self of
        Inl e \<Rightarrow> Inl (e, self)
      | Inr _ \<Rightarrow>
          (case batch of (images, labels, _) \<Rightarrow>
             (case forward env images (model_train self) of
                Inl e \<Rightarrow> Inl e
              | Inr (preds, s1) \<Rightarrow>
                  (case criterion env preds labels s1 of
                     Inl e \<Rightarrow> Inl e
                   | Inr (loss, s2) \<Rightarrow>
                       Inr (run_all
                         [zero_grad env Feat,
                          zero_grad env Head,
                          manual_backward env images labels,
                          clip_gradients env Feat (clip_grad (hparams self)) ''norm'',
                          clip_gradients env Head (clip_grad (hparams self)) ''norm'',
                          optimizer_step env Feat,
                          optimizer_step env Head,
                          self_log ''loss'' loss,
                          (\<lambda>s. self_log ''feat_lr'' (current_lr env Feat s) s),
                          (\<lambda>s. self_log ''head_lr'' (current_lr env Head s) s)] s2)))))"

text \<open>\<open>on_train_epoch_end\<close> (lines 82 to 86).\<close>

definition on_train_epoch_end ::
  "('sd, 'x, 'im) torch \<Rightarrow> ('sd, 'x) pl_state \<Rightarrow> ('sd, 'x) res" where
  "on_train_epoch_end env self =
     (case lr_schedulers self of
        Inl e \<Rightarrow> Inl (e, self)
      | Inr _ \<Rightarrow> Inr (run_all [scheduler_step env Feat, scheduler_step env Head] self))"

text \<open>\<open>validation_step\<close> (lines 88 to 121).\<close>

definition validation_step ::
  "('sd, 'x, 'im) torch \<Rightarrow> 'im batch \<Rightarrow> nat \<Rightarrow> ('sd, 'x) pl_state \<Rightarrow> ('sd, 'x) res" where
  "validation_step env batch batch_idx self =
     (case batch of (images, labels, _) \<Rightarrow>
        (let batch_size = length images in
         case forward env images (model_eval self) of
           Inl e \<Rightarrow> Inl e
         | Inr (preds, s1) \<Rightarrow>
             (case criterion env preds labels s1 of
                Inl e \<Rightarrow> Inl e
              | Inr (loss, s2) \<Rightarrow>
                  (let m = calculate_metrics preds labels batch_size in
                   Inr (run_all
                     [self_log ''val_loss'' loss,
                      self_log ''val_acc'' (m_acc m),
                      self_log ''val_f1'' (m_f1 m),
                      self_log ''val_precision'' (m_precision m),
                      self_log ''val_recall'' (m_recall m),
                      (\<lambda>s. s\<lparr>loss_val_avg := Averager_add loss (loss_val_avg s)\<rparr>),
                      (\<lambda>s. s\<lparr>acc_val_avg := Averager_add (m_acc m) (acc_val_avg s)\<rparr>),
                      (\<lambda>s. s\<lparr>f1_val_avg := Averager_add (m_f1 m) (f1_val_avg s)\<rparr>),
                      (\<lambda>s. s\<lparr>precision_val_avg :=
                                Averager_add (m_precision m) (precision_val_avg s)\<rparr>),
                      (\<lambda>s. s\<lparr>recall_val_avg :=
                                Averager_add (m_recall m) (recall_val_avg s)\<rparr>)] s2)))))"

text \<open>The path of the best-F1 checkpoint and of the full-mode checkpoint.\<close>

definition val_path :: "args \<Rightarrow> string" where
  "val_path a = ''saved_models/'' @ model a @ ''_val.pt''"

definition full_path :: "args \<Rightarrow> string" where
  "full_path a = ''saved_models/'' @ model a @ ''_full.pt''"

text \<open>\<open>on_validation_epoch_end\<close> (lines 124 to 140).\<close>

definition on_validation_epoch_end :: "('sd, 'x) pl_state \<Rightarrow> ('sd, 'x) pl_state" where
  "on_validation_epoch_end self =
     (let current_f1 = Averager_val (f1_val_avg self);
          s1 = (if fgt current_f1 (best_f1 self)
                then torch_save (state_dict self) (val_path (hparams self))
                       (self\<lparr>best_f1 := current_f1\<rparr>)
                else self)
      in run_all
           [print (replicate 10 CHR ''-''),
            print_value ''Validation loss: '' (\<lambda>s. Averager_val (loss_val_avg s)),
            print_value ''Validation accuracy: '' (\<lambda>s. Averager_val (acc_val_avg s)),
            print_value ''Validation f1: '' (\<lambda>s. Averager_val (f1_val_avg s)),
            print_value ''Validation precision: '' (\<lambda>s. Averager_val (precision_val_avg s)),
            print_value ''Validation recall: '' (\<lambda>s. Averager_val (recall_val_avg s)),
            (\<lambda>s. s\<lparr>loss_val_avg := Averager_reset (loss_val_avg s)\<rparr>),
            (\<lambda>s. s\<lparr>acc_val_avg := Averager_reset (acc_val_avg s)\<rparr>),
            (\<lambda>s. s\<lparr>f1_val_avg := Averager_reset (f1_val_avg s)\<rparr>),
            (\<lambda>s. s\<lparr>precision_val_avg := Averager_reset (precision_val_avg s)\<rparr>),
            (\<lambda>s. s\<lparr>recall_val_avg := Averager_reset (recall_val_avg s)\<rparr>)] s1)"

section \<open>The trainer\<close>

text \<open>
  The framework calls the methods above; an exception from one of them ends the run. The
  hooks it calls, in order, are a list of events.
\<close>

datatype 'im event =
    TrainingStep "'im batch" nat
  | OnTrainEpochEnd
  | ValidationStep "'im batch" nat
  | OnValidationEpochEnd

definition call_hook ::
  "('sd, 'x, 'im) torch \<Rightarrow> 'im event \<Rightarrow> ('sd, 'x) pl_state \<Rightarrow> ('sd, 'x) res" where
  "call_hook env ev s =
     (case ev of
        TrainingStep batch batch_idx \<Rightarrow> training_step env batch batch_idx s
      | OnTrainEpochEnd \<Rightarrow> on_train_epoch_end env s
      | ValidationStep batch batch_idx \<Rightarrow> validation_step env batch batch_idx s
      | OnValidationEpochEnd \<Rightarrow> Inr (on_validation_epoch_end s))"

fun run_hooks ::
  "('sd, 'x, 'im) torch \<Rightarrow> 'im event list \<Rightarrow> ('sd, 'x) pl_state \<Rightarrow> ('sd, 'x) res" where
  "run_hooks env [] s = Inr s"
| "run_hooks env (ev # evs) s =
     (case call_hook env ev s of
        Inl e \<Rightarrow> Inl e
      | Inr s' \<Rightarrow> run_hooks env evs s')"

text \<open>
  The order in which \<open>pl.Trainer.fit\<close> calls the hooks, with the trainer's default
  settings (it is built with a log directory and \<open>max_epochs\<close> only): when a validation
  loader is given, a sanity check first (two validation batches and the validation
  epoch end); then, for each of the \<open>max_epochs\<close> epochs, the training batches, the
  validation loop when a validation loader is given, and the training epoch end.
  \<open>loader_batches env l k\<close> are the batches of the \<open>k\<close>-th pass over the loader \<open>l\<close>.
\<close>

definition training_loop :: "'im batch list \<Rightarrow> 'im event list" where
  "training_loop bs = map2 TrainingStep bs [0..<length bs]"

definition validation_loop :: "'im batch list \<Rightarrow> 'im event list" where
  "validation_loop bs = map2 ValidationStep bs [0..<length bs] @ [OnValidationEpochEnd]"

definition fit_epoch ::
  "('sd, 'x, 'im) torch \<Rightarrow> dataloader \<Rightarrow> dataloader option \<Rightarrow> nat \<Rightarrow> 'im event list" where
  "fit_epoch env train_loader val_loader epoch =
     training_loop (loader_batches env train_loader epoch)
     @ (case val_loader of
          None \<Rightarrow> []
        | Some vl \<Rightarrow> validation_loop (loader_batches env vl (Suc epoch)))
     @ [OnTrainEpochEnd]"

definition fit_schedule ::
  "('sd, 'x, 'im) torch \<Rightarrow> dataloader \<Rightarrow> dataloader option \<Rightarrow> nat \<Rightarrow> 'im event list" where
  "fit_schedule env train_loader val_loader max_epochs =
     (case val_loader of
        None \<Rightarrow> []
      | Some vl \<Rightarrow> validation_loop (take 2 (loader_batches env vl 0)))
     @ concat (map (fit_epoch env train_loader val_loader) [0..<max_epochs])"

definition trainer_fit ::
  "('sd, 'x, 'im) torch \<Rightarrow> nat \<Rightarrow> ('sd, 'x) pl_state \<Rightarrow> dataloader \<Rightarrow> dataloader option
     \<Rightarrow> ('sd, 'x) res" where
  "trainer_fit env max_epochs pl_model train_loader val_loader =
     (case configure_optimizers env
             (call_lib (TrainerFit train_loader val_loader max_epochs) pl_model) of
        Inl e \<Rightarrow> Inl e
      | Inr s \<Rightarrow> run_hooks env (fit_schedule env train_loader val_loader max_epochs) s)"

section \<open>The driver\<close>

text \<open>
  \<open>train\<close> (lines 143 to 187), in a world with the checkpoint files \<open>fs\<close>. It returns the
  model (its parameters) and the final state, or the exception that ended the run with
  the state at that point.
\<close>

definition train_loaders :: "args \<Rightarrow> dataloader \<times> dataloader option" where
  "train_loaders a =
     (if train_full a then
        (let train_dataset = create_dataset (train_dirs a @ val_dirs a) True;
             train_loader = create_dataloader train_dataset (batch_size a) (num_workers a) True
         in (train_loader, None))
      else
        (let train_dataset = create_dataset (train_dirs a) True;
             val_dataset = create_dataset (val_dirs a) False;
             train_loader = create_dataloader train_dataset (batch_size a) (num_workers a) True;
             val_loader = create_dataloader val_dataset (batch_size a) (num_workers a) True
         in (train_loader, Some val_loader)))"

definition train_pl_model ::
  "('sd, 'x, 'im) torch \<Rightarrow> args \<Rightarrow> (string \<Rightarrow> 'sd option) \<Rightarrow> ('sd, 'x) pl_state" where
  "train_pl_model env a fs =
     (let ori_model = new_model env (model a) 10 (mlp_structures a) (drop_rate a);
          pl_model = LitModel ori_model a fs
      in run_all [print ''Start training'', print (replicate 25 CHR ''-'')] pl_model)"

definition train ::
  "('sd, 'x, 'im) torch \<Rightarrow> args \<Rightarrow> (string \<Rightarrow> 'sd option)
     \<Rightarrow> (error \<times> ('sd, 'x) pl_state) + ('sd \<times> ('sd, 'x) pl_state)" where
  "train env a fs =
     (case train_loaders a of (train_loader, val_loader) \<Rightarrow>
        (let pl_model = train_pl_model env a fs;
             max_epochs = epochs a
         in if train_full a then
              (case trainer_fit env max_epochs pl_model train_loader None of
                 Inl e \<Rightarrow> Inl e
               | Inr s1 \<Rightarrow>
                   (let s2 = torch_save (state_dict s1) (full_path a) s1
                    in Inr (state_dict s2, s2)))
            else
              (case trainer_fit env max_epochs pl_model train_loader val_loader of
                 Inl e \<Rightarrow> Inl e
               | Inr s1 \<Rightarrow>
                   (let s2 = print_value ''Best validation f1: '' best_f1 s1
                    in case torch_load (val_path a) s2 of
                         Inl e \<Rightarrow> Inl e
                       | Inr (sd, s3) \<Rightarrow>
                           (let s4 = load_state_dict sd s3
                            in Inr (state_dict s4, s4))))))"

section \<open>Observing a run\<close>

text \<open>The state a run ends in, whether it returned or raised.\<close>

definition final_state :: "(error \<times> 's) + 's \<Rightarrow> 's" where
  "final_state r = (case r of Inl (e, s) \<Rightarrow> s | Inr s \<Rightarrow> s)"

definition outcome_state :: "(error \<times> 's) + ('m \<times> 's) \<Rightarrow> 's" where
  "outcome_state r = (case r of Inl (e, s) \<Rightarrow> s | Inr (m, s) \<Rightarrow> s)"

text \<open>The calls made since the state \<open>s\<close>, in a state \<open>s'\<close> reached from it.\<close>

definition calls_since :: "('sd, 'x) pl_state \<Rightarrow> ('sd, 'x) pl_state \<Rightarrow> call list" where
  "calls_since s s' = drop (length (calls s)) (calls s')"

text \<open>
  The epoch-average F1 that a validation epoch end read is the one it prints
  (\<open>Validation f1: ...\<close>), so the record of calls holds the sequence of epoch averages
  of a run, and, with the \<open>torch.save\<close> calls on the checkpoint path, which epochs wrote
  the checkpoint.
\<close>

definition printed_f1 :: "call \<Rightarrow> fval list" where
  "printed_f1 c =
     (case c of
        PrintValue label v \<Rightarrow> (if label = ''Validation f1: '' then [v] else [])
      | _ \<Rightarrow> [])"

definition epoch_f1s :: "call list \<Rightarrow> fval list" where
  "epoch_f1s cs = concat (map printed_f1 cs)"

definition checkpoint_trace :: "string \<Rightarrow> call list \<Rightarrow> call list" where
  "checkpoint_trace p cs = filter (\<lambda>c. c = TorchSave p \<or> printed_f1 c \<noteq> []) cs"

definition is_save :: "call \<Rightarrow> bool" where
  "is_save c = (case c of TorchSave p \<Rightarrow> True | _ \<Rightarrow> False)"

definition is_load :: "call \<Rightarrow> bool" where
  "is_load c = (case c of TorchLoad p \<Rightarrow> True | LoadStateDict \<Rightarrow> True | _ \<Rightarrow> False)"

text \<open>The calls that a training step, a validation step and a training epoch end make.\<close>

definition is_step_call :: "call \<Rightarrow> bool" where
  "is_step_call c =
     (case c of
        ModelTrain \<Rightarrow> True
      | ModelEval \<Rightarrow> True
      | Forward \<Rightarrow> True
      | Criterion \<Rightarrow> True
      | ZeroGrad opt \<Rightarrow> True
      | ManualBackward \<Rightarrow> True
      | ClipGradients opt v alg \<Rightarrow> True
      | OptimizerStep opt \<Rightarrow> True
      | Log name v \<Rightarrow> True
      | _ \<Rightarrow> False)"

definition is_training_event :: "'im event \<Rightarrow> bool" where
  "is_training_event ev =
     (case ev of TrainingStep b i \<Rightarrow> True | OnTrainEpochEnd \<Rightarrow> True | _ \<Rightarrow> False)"

section \<open>The checkpoint policy in the spec's words\<close>

text \<open>
  The best-F1 checkpoint is written if and only if the current epoch's averaged F1
  strictly exceeds the best seen so far, and the best is updated to it in exactly that
  case: from the best so far and the epoch averages to come, the checkpoint writes and
  the averages in the order a run shows them, and the best F1 after them.
\<close>

fun spec_checkpoint_trace :: "string \<Rightarrow> fval \<Rightarrow> fval list \<Rightarrow> call list" where
  "spec_checkpoint_trace p best [] = []"
| "spec_checkpoint_trace p best (f1 # rest) =
     (if fgt f1 best
      then TorchSave p # PrintValue ''Validation f1: '' f1 # spec_checkpoint_trace p f1 rest
      else PrintValue ''Validation f1: '' f1 # spec_checkpoint_trace p best rest)"

fun spec_best_f1 :: "fval \<Rightarrow> fval list \<Rightarrow> fval" where
  "spec_best_f1 best [] = best"
| "spec_best_f1 best (f1 # rest) = spec_best_f1 (if fgt f1 best then f1 else best) rest"

text \<open>
  The maximum of a list of floats: one of them, and greater than or equal to every one of
  them that is a number (NaN is not a number and compares with nothing).
\<close>

definition is_maximum :: "fval \<Rightarrow> fval list \<Rightarrow> bool" where
  "is_maximum m vs = (m \<in> set vs \<and> (\<forall>v\<in>set vs. v = NaN \<or> v = m \<or> fgt m v))"

section \<open>The validation metrics in the spec's words\<close>

text \<open>
  Predictions are binarized at threshold 0.5; accuracy is the count of label-wise exact
  matches over batch size times 10; TP = sum(pred * label), FP = sum(pred * (1 - label)),
  FN = sum((1 - pred) * label), over the whole batch and all labels; precision =
  TP / (TP + FP), recall = TP / (TP + FN), F1 = 2 * P * R / (P + R).
\<close>

definition spec_pred :: "tensor \<Rightarrow> nat \<Rightarrow> fval" where
  "spec_pred probs i = (if fgt (probs ! i) (Num 0.5) then Num 1 else Num 0)"

definition spec_matches :: "tensor \<Rightarrow> tensor \<Rightarrow> nat" where
  "spec_matches probs labels =
     length (filter (\<lambda>i. feq (spec_pred probs i) (labels ! i)) [0..<length labels])"

definition spec_accuracy :: "tensor \<Rightarrow> tensor \<Rightarrow> nat \<Rightarrow> fval" where
  "spec_accuracy probs labels B =
     fdiv (Num (real (spec_matches probs labels))) (Num (real (B * 10)))"

definition spec_TP :: "tensor \<Rightarrow> tensor \<Rightarrow> fval" where
  "spec_TP probs labels =
     t_sum (map (\<lambda>i. fmul (spec_pred probs i) (labels ! i)) [0..<length labels])"

definition spec_FP :: "tensor \<Rightarrow> tensor \<Rightarrow> fval" where
  "spec_FP probs labels =
     t_sum (map (\<lambda>i. fmul (spec_pred probs i) (fsub (Num 1) (labels ! i))) [0..<length labels])"

definition spec_FN :: "tensor \<Rightarrow> tensor \<Rightarrow> fval" where
  "spec_FN probs labels =
     t_sum (map (\<lambda>i. fmul (fsub (Num 1) (spec_pred probs i)) (labels ! i)) [0..<length labels])"

definition spec_precision :: "tensor \<Rightarrow> tensor \<Rightarrow> fval" where
  "spec_precision probs labels =
     fdiv (spec_TP probs labels) (fadd (spec_TP probs labels) (spec_FP probs labels))"

definition spec_recall :: "tensor \<Rightarrow> tensor \<Rightarrow> fval" where
  "spec_recall probs labels =
     fdiv (spec_TP probs labels) (fadd (spec_TP probs labels) (spec_FN probs labels))"

definition spec_F1 :: "tensor \<Rightarrow> tensor \<Rightarrow> fval" where
  "spec_F1 probs labels =
     fdiv (fmul (fmul (Num 2) (spec_precision probs labels)) (spec_recall probs labels))
          (fadd (spec_precision probs labels) (spec_recall probs labels))"

section \<open>A small instance of the library\<close>

text \<open>
  An instance on which the model runs to a value: an image is its row of ten
  probabilities and the network returns them; the state dict counts the optimizer
  steps taken, the optimizer internals count the backward passes and scheduler steps.
\<close>

definition toy_row :: "nat \<Rightarrow> nat \<Rightarrow> fval list" where
  "toy_row k n = replicate k (Num 1) @ replicate (n - k) (Num 0)"

text \<open>
  A batch of two images with \<open>tp\<close> true positives, \<open>fp\<close> false positives and \<open>fn\<close>
  false negatives among its twenty labels (\<open>tp + fp + fn \<le> 20\<close>).
\<close>

definition toy_batch :: "nat \<Rightarrow> nat \<Rightarrow> nat \<Rightarrow> (fval list) batch" where
  "toy_batch tp fp fn =
     (let probs = map (\<lambda>x. fmul (Num 0.9) x) (toy_row (tp + fp) 20);
          labels = toy_row tp (tp + fp) @ toy_row fn (20 - (tp + fp))
      in ([take 10 probs, drop 10 probs], labels, [''a'', ''b'']))"

text \<open>
  The validation loader yields one batch per pass: F1 is 0.5 on the sanity pass and on
  the second epoch, and 1 on the first epoch. The training loader yields one batch.
\<close>

definition toy_batches :: "dataloader \<Rightarrow> nat \<Rightarrow> (fval list) batch list" where
  "toy_batches l k =
     (if ds_is_train (dl_dataset l) then [toy_batch 2 0 0]
      else if k = 1 then [toy_batch 1 0 0] else [toy_batch 1 1 1])"

definition toy_torch :: "(nat, nat \<times> nat, fval list) torch" where
  "toy_torch =
     \<lparr>new_model = (\<lambda>name n mlp dr. 0),
      model_forward = (\<lambda>sd tr images. Inr (concat images)),
      bce_loss = (\<lambda>preds labels. Inr (Num 0)),
      make_optimizers = (\<lambda>a sd. Inr (0, 0)),
      zero_grad_f = (\<lambda>opt x. x),
      backward_f = (\<lambda>sd images labels x. (Suc (fst x), snd x)),
      clip_f = (\<lambda>opt c x. x),
      opt_step_f = (\<lambda>opt x sd. (Suc sd, x)),
      sched_step_f = (\<lambda>opt x. (fst x, Suc (snd x))),
      lr_f = (\<lambda>opt x. Num 0.001),
      loader_batches = toy_batches\<rparr>"

text \<open>
  Four validation epochs of one batch each, with F1 0.3, 0.5, 0.4 and 0.6 (from the
  counts of true positives, false positives and false negatives of each batch).
\<close>

definition toy_validation_epochs :: "(fval list) event list" where
  "toy_validation_epochs =
     [ValidationStep (toy_batch 3 7 7) 0, OnValidationEpochEnd,
      ValidationStep (toy_batch 1 1 1) 0, OnValidationEpochEnd,
      ValidationStep (toy_batch 1 1 2) 0, OnValidationEpochEnd,
      ValidationStep (toy_batch 3 2 2) 0, OnValidationEpochEnd]"

definition toy_args :: args where
  "toy_args =
     \<lparr>model = ''resnet'', lr = Num 0.001, lr_head = Num 0.01, weight_decay = Num 0,
      warmup_pct = Num 0.1, clip_grad = Num 1, epochs = 2, batch_size = 2, num_workers = 0,
      train_dirs = [''data/train''], val_dirs = [''data/val''], train_full = False,
      mlp_structures = [], drop_rate = Num 0\<rparr>"

section \<open>Lemmas on the library calls\<close>

text \<open>What each call leaves of the state, field by field.\<close>

lemma call_lib_fields [simp]:
  "state_dict (call_lib c s) = state_dict s"
  "training (call_lib c s) = training s"
  "optim (call_lib c s) = optim s"
  "hparams (call_lib c s) = hparams s"
  "loss_val_avg (call_lib c s) = loss_val_avg s"
  "acc_val_avg (call_lib c s) = acc_val_avg s"
  "f1_val_avg (call_lib c s) = f1_val_avg s"
  "precision_val_avg (call_lib c s) = precision_val_avg s"
  "recall_val_avg (call_lib c s) = recall_val_avg s"
  "best_f1 (call_lib c s) = best_f1 s"
  "files (call_lib c s) = files s"
  "calls (call_lib c s) = calls s @ [c]"
  by (simp_all add: call_lib_def split: option.split prod.split)

lemma model_train_fields [simp]:
  "state_dict (model_train s) = state_dict s"
  "training (model_train s) = True"
  "optim (model_train s) = optim s"
  "hparams (model_train s) = hparams s"
  "loss_val_avg (model_train s) = loss_val_avg s"
  "acc_val_avg (model_train s) = acc_val_avg s"
  "f1_val_avg (model_train s) = f1_val_avg s"
  "precision_val_avg (model_train s) = precision_val_avg s"
  "recall_val_avg (model_train s) = recall_val_avg s"
  "best_f1 (model_train s) = best_f1 s"
  "files (model_train s) = files s"
  "calls (model_train s) = calls s @ [ModelTrain]"
  by (simp_all add: model_train_def call_lib_def split: option.split prod.split)

lemma model_eval_fields [simp]:
  "state_dict (model_eval s) = state_dict s"
  "training (model_eval s) = False"
  "optim (model_eval s) = optim s"
  "hparams (model_eval s) = hparams s"
  "loss_val_avg (model_eval s) = loss_val_avg s"
  "acc_val_avg (model_eval s) = acc_val_avg s"
  "f1_val_avg (model_eval s) = f1_val_avg s"
  "precision_val_avg (model_eval s) = precision_val_avg s"
  "recall_val_avg (model_eval s) = recall_val_avg s"
  "best_f1 (model_eval s) = best_f1 s"
  "files (model_eval s) = files s"
  "calls (model_eval s) = calls s @ [ModelEval]"
  by (simp_all add: model_eval_def call_lib_def split: option.split prod.split)

lemma zero_grad_fields [simp]:
  "state_dict (zero_grad env opt s) = state_dict s"
  "training (zero_grad env opt s) = training s"
  "optim (zero_grad env opt s) = map_option (zero_grad_f env opt) (optim s)"
  "hparams (zero_grad env opt s) = hparams s"
  "loss_val_avg (zero_grad env opt s) = loss_val_avg s"
  "acc_val_avg (zero_grad env opt s) = acc_val_avg s"
  "f1_val_avg (zero_grad env opt s) = f1_val_avg s"
  "precision_val_avg (zero_grad env opt s) = precision_val_avg s"
  "recall_val_avg (zero_grad env opt s) = recall_val_avg s"
  "best_f1 (zero_grad env opt s) = best_f1 s"
  "files (zero_grad env opt s) = files s"
  "calls (zero_grad env opt s) = calls s @ [ZeroGrad opt]"
  by (simp_all add: zero_grad_def call_lib_def split: option.split prod.split)

lemma manual_backward_fields [simp]:
  "state_dict (manual_backward env images labels s) = state_dict s"
  "training (manual_backward env images labels s) = training s"
  "optim (manual_backward env images labels s) = map_option (backward_f env (state_dict s) images labels) (optim s)"
  "hparams (manual_backward env images labels s) = hparams s"
  "loss_val_avg (manual_backward env images labels s) = loss_val_avg s"
  "acc_val_avg (manual_backward env images labels s) = acc_val_avg s"
  "f1_val_avg (manual_backward env images labels s) = f1_val_avg s"
  "precision_val_avg (manual_backward env images labels s) = precision_val_avg s"
  "recall_val_avg (manual_backward env images labels s) = recall_val_avg s"
  "best_f1 (manual_backward env images labels s) = best_f1 s"
  "files (manual_backward env images labels s) = files s"
  "calls (manual_backward env images labels s) = calls s @ [ManualBackward]"
  by (simp_all add: manual_backward_def call_lib_def split: option.split prod.split)

lemma clip_gradients_fields [simp]:
  "state_dict (clip_gradients env opt v alg s) = state_dict s"
  "training (clip_gradients env opt v alg s) = training s"
  "optim (clip_gradients env opt v alg s) = map_option (clip_f env opt v) (optim s)"
  "hparams (clip_gradients env opt v alg s) = hparams s"
  "loss_val_avg (clip_gradients env opt v alg s) = loss_val_avg s"
  "acc_val_avg (clip_gradients env opt v alg s) = acc_val_avg s"
  "f1_val_avg (clip_gradients env opt v alg s) = f1_val_avg s"
  "precision_val_avg (clip_gradients env opt v alg s) = precision_val_avg s"
  "recall_val_avg (clip_gradients env opt v alg s) = recall_val_avg s"
  "best_f1 (clip_gradients env opt v alg s) = best_f1 s"
  "files (clip_gradients env opt v alg s) = files s"
  "calls (clip_gradients env opt v alg s) = calls s @ [ClipGradients opt v alg]"
  by (simp_all add: clip_gradients_def call_lib_def split: option.split prod.split)

lemma optimizer_step_fields [simp]:
  "state_dict (optimizer_step env opt s) = (case optim s of None \<Rightarrow> state_dict s | Some x \<Rightarrow> fst (opt_step_f env opt x (state_dict s)))"
  "training (optimizer_step env opt s) = training s"
  "optim (optimizer_step env opt s) = map_option (\<lambda>x. snd (opt_step_f env opt x (state_dict s))) (optim s)"
  "hparams (optimizer_step env opt s) = hparams s"
  "loss_val_avg (optimizer_step env opt s) = loss_val_avg s"
  "acc_val_avg (optimizer_step env opt s) = acc_val_avg s"
  "f1_val_avg (optimizer_step env opt s) = f1_val_avg s"
  "precision_val_avg (optimizer_step env opt s) = precision_val_avg s"
  "recall_val_avg (optimizer_step env opt s) = recall_val_avg s"
  "best_f1 (optimizer_step env opt s) = best_f1 s"
  "files (optimizer_step env opt s) = files s"
  "calls (optimizer_step env opt s) = calls s @ [OptimizerStep opt]"
  by (simp_all add: optimizer_step_def call_lib_def split: option.split prod.split)

lemma scheduler_step_fields [simp]:
  "state_dict (scheduler_step env opt s) = state_dict s"
  "training (scheduler_step env opt s) = training s"
  "optim (scheduler_step env opt s) = map_option (sched_step_f env opt) (optim s)"
  "hparams (scheduler_step env opt s) = hparams s"
  "loss_val_avg (scheduler_step env opt s) = loss_val_avg s"
  "acc_val_avg (scheduler_step env opt s) = acc_val_avg s"
  "f1_val_avg (scheduler_step env opt s) = f1_val_avg s"
  "precision_val_avg (scheduler_step env opt s) = precision_val_avg s"
  "recall_val_avg (scheduler_step env opt s) = recall_val_avg s"
  "best_f1 (scheduler_step env opt s) = best_f1 s"
  "files (scheduler_step env opt s) = files s"
  "calls (scheduler_step env opt s) = calls s @ [SchedulerStep opt]"
  by (simp_all add: scheduler_step_def call_lib_def split: option.split prod.split)

lemma self_log_fields [simp]:
  "state_dict (self_log name v s) = state_dict s"
  "training (self_log name v s) = training s"
  "optim (self_log name v s) = optim s"
  "hparams (self_log name v s) = hparams s"
  "loss_val_avg (self_log name v s) = loss_val_avg s"
  "acc_val_avg (self_log name v s) = acc_val_avg s"
  "f1_val_avg (self_log name v s) = f1_val_avg s"
  "precision_val_avg (self_log name v s) = precision_val_avg s"
  "recall_val_avg (self_log name v s) = recall_val_avg s"
  "best_f1 (self_log name v s) = best_f1 s"
  "files (self_log name v s) = files s"
  "calls (self_log name v s) = calls s @ [Log name v]"
  by (simp_all add: self_log_def call_lib_def split: option.split prod.split)

lemma print_fields [simp]:
  "state_dict (print line s) = state_dict s"
  "training (print line s) = training s"
  "optim (print line s) = optim s"
  "hparams (print line s) = hparams s"
  "loss_val_avg (print line s) = loss_val_avg s"
  "acc_val_avg (print line s) = acc_val_avg s"
  "f1_val_avg (print line s) = f1_val_avg s"
  "precision_val_avg (print line s) = precision_val_avg s"
  "recall_val_avg (print line s) = recall_val_avg s"
  "best_f1 (print line s) = best_f1 s"
  "files (print line s) = files s"
  "calls (print line s) = calls s @ [Print line]"
  by (simp_all add: print_def call_lib_def split: option.split prod.split)

lemma print_value_fields [simp]:
  "state_dict (print_value label f s) = state_dict s"
  "training (print_value label f s) = training s"
  "optim (print_value label f s) = optim s"
  "hparams (print_value label f s) = hparams s"
  "loss_val_avg (print_value label f s) = loss_val_avg s"
  "acc_val_avg (print_value label f s) = acc_val_avg s"
  "f1_val_avg (print_value label f s) = f1_val_avg s"
  "precision_val_avg (print_value label f s) = precision_val_avg s"
  "recall_val_avg (print_value label f s) = recall_val_avg s"
  "best_f1 (print_value label f s) = best_f1 s"
  "files (print_value label f s) = files s"
  "calls (print_value label f s) = calls s @ [PrintValue label (f s)]"
  by (simp_all add: print_value_def call_lib_def split: option.split prod.split)

lemma torch_save_fields [simp]:
  "state_dict (torch_save sd path s) = state_dict s"
  "training (torch_save sd path s) = training s"
  "optim (torch_save sd path s) = optim s"
  "hparams (torch_save sd path s) = hparams s"
  "loss_val_avg (torch_save sd path s) = loss_val_avg s"
  "acc_val_avg (torch_save sd path s) = acc_val_avg s"
  "f1_val_avg (torch_save sd path s) = f1_val_avg s"
  "precision_val_avg (torch_save sd path s) = precision_val_avg s"
  "recall_val_avg (torch_save sd path s) = recall_val_avg s"
  "best_f1 (torch_save sd path s) = best_f1 s"
  "files (torch_save sd path s) = (files s)(path \<mapsto> sd)"
  "calls (torch_save sd path s) = calls s @ [TorchSave path]"
  by (simp_all add: torch_save_def call_lib_def split: option.split prod.split)

lemma load_state_dict_fields [simp]:
  "state_dict (load_state_dict sd s) = sd"
  "training (load_state_dict sd s) = training s"
  "optim (load_state_dict sd s) = optim s"
  "hparams (load_state_dict sd s) = hparams s"
  "loss_val_avg (load_state_dict sd s) = loss_val_avg s"
  "acc_val_avg (load_state_dict sd s) = acc_val_avg s"
  "f1_val_avg (load_state_dict sd s) = f1_val_avg s"
  "precision_val_avg (load_state_dict sd s) = precision_val_avg s"
  "recall_val_avg (load_state_dict sd s) = recall_val_avg s"
  "best_f1 (load_state_dict sd s) = best_f1 s"
  "files (load_state_dict sd s) = files s"
  "calls (load_state_dict sd s) = calls s @ [LoadStateDict]"
  by (simp_all add: load_state_dict_def call_lib_def split: option.split prod.split)

lemma run_all_Nil [simp]: "run_all [] s = s"
  by (simp add: run_all_def)

lemma run_all_Cons [simp]: "run_all (f # fs) s = run_all fs (f s)"
  by (simp add: run_all_def)

lemma current_lr_fields [simp]:
  "current_lr env opt (self_log name v s) = current_lr env opt s"
  by (simp add: current_lr_def)

lemma calls_since_self [simp]: "calls_since s s = []"
  by (simp add: calls_since_def)

lemma calls_since_append: "calls s' = calls s @ cs \<Longrightarrow> calls_since s s' = cs"
  by (simp add: calls_since_def)

text \<open>The three ways a training step ends.\<close>

lemma training_step_cases:
  obtains (detached) "optim s = None" "training_step env (images, labels, ids) i s = Inl (RuntimeError ''LitModel is not attached to a Trainer'', s)"
  | (forward_raises) e where "training_step env (images, labels, ids) i s = Inl (e, call_lib Forward (model_train s))"
  | (loss_raises) e where "training_step env (images, labels, ids) i s = Inl (e, call_lib Criterion (call_lib Forward (model_train s)))"
  | (returns) x preds loss where "optim s = Some x"
      "model_forward env (state_dict s) True images = Inr preds"
      "length labels = length preds"
      "bce_loss env preds labels = Inr loss"
      "training_step env (images, labels, ids) i s =
         Inr (run_all
           [zero_grad env Feat, zero_grad env Head, manual_backward env images labels,
            clip_gradients env Feat (clip_grad (hparams s)) ''norm'',
            clip_gradients env Head (clip_grad (hparams s)) ''norm'',
            optimizer_step env Feat, optimizer_step env Head,
            self_log ''loss'' loss,
            (\<lambda>s. self_log ''feat_lr'' (current_lr env Feat s) s),
            (\<lambda>s. self_log ''head_lr'' (current_lr env Head s) s)]
           (call_lib Criterion (call_lib Forward (model_train s))))"
proof (cases "optim s")
  case None
  then show ?thesis
    using detached by (simp add: training_step_def optimizers_def)
next
  case (Some x)
  show ?thesis
  proof (cases "model_forward env (state_dict s) True images")
    case (Inl e)
    then show ?thesis
      using Some forward_raises [of e]
      by (simp add: training_step_def optimizers_def forward_def)
  next
    case (Inr preds)
    show ?thesis
    proof (cases "length labels = length preds")
      case False
      then show ?thesis
        using Some Inr loss_raises
        by (simp add: training_step_def optimizers_def forward_def criterion_def)
    next
      case True
      show ?thesis
      proof (cases "bce_loss env preds labels")
        case (Inl e)
        then show ?thesis
          using Some Inr True loss_raises [of e]
          by (simp add: training_step_def optimizers_def forward_def criterion_def)
      next
        case loss: (Inr loss)
        show ?thesis
          using Some Inr True loss returns [of x preds loss]
          by (simp add: training_step_def optimizers_def forward_def criterion_def)
      qed
    qed
  qed
qed

lemma training_step_effect:
  assumes "s' = final_state (training_step env b i s)"
  shows "calls s' = calls s @ calls_since s s'"
    and "\<forall>c\<in>set (calls_since s s'). is_step_call c \<and> c \<noteq> ModelEval"
    and "best_f1 s' = best_f1 s" and "files s' = files s" and "hparams s' = hparams s"
proof -
  obtain images labels ids where b: "b = (images, labels, ids)"
    by (cases b) auto
  have "calls s' = calls s @ calls_since s s' \<and>
        (\<forall>c\<in>set (calls_since s s'). is_step_call c \<and> c \<noteq> ModelEval) \<and>
        best_f1 s' = best_f1 s \<and> files s' = files s \<and> hparams s' = hparams s"
    unfolding assms b
    by (cases rule: training_step_cases [of s env images labels ids i])
       (simp_all add: final_state_def is_step_call_def calls_since_def)
  then show "calls s' = calls s @ calls_since s s'"
    and "\<forall>c\<in>set (calls_since s s'). is_step_call c \<and> c \<noteq> ModelEval"
    and "best_f1 s' = best_f1 s" and "files s' = files s" and "hparams s' = hparams s"
    by simp_all
qed

text \<open>The ways a validation step ends.\<close>

lemma validation_step_cases:
  obtains (forward_raises) e where "validation_step env (images, labels, ids) i s = Inl (e, call_lib Forward (model_eval s))"
  | (loss_raises) e where "validation_step env (images, labels, ids) i s = Inl (e, call_lib Criterion (call_lib Forward (model_eval s)))"
  | (returns) preds loss where
      "model_forward env (state_dict s) False images = Inr preds"
      "length labels = length preds"
      "bce_loss env preds labels = Inr loss"
      "validation_step env (images, labels, ids) i s =
         Inr (run_all
           [self_log ''val_loss'' loss,
            self_log ''val_acc'' (m_acc (calculate_metrics preds labels (length images))),
            self_log ''val_f1'' (m_f1 (calculate_metrics preds labels (length images))),
            self_log ''val_precision'' (m_precision (calculate_metrics preds labels (length images))),
            self_log ''val_recall'' (m_recall (calculate_metrics preds labels (length images))),
            (\<lambda>s. s\<lparr>loss_val_avg := Averager_add loss (loss_val_avg s)\<rparr>),
            (\<lambda>s. s\<lparr>acc_val_avg :=
               Averager_add (m_acc (calculate_metrics preds labels (length images))) (acc_val_avg s)\<rparr>),
            (\<lambda>s. s\<lparr>f1_val_avg :=
               Averager_add (m_f1 (calculate_metrics preds labels (length images))) (f1_val_avg s)\<rparr>),
            (\<lambda>s. s\<lparr>precision_val_avg :=
               Averager_add (m_precision (calculate_metrics preds labels (length images)))
                 (precision_val_avg s)\<rparr>),
            (\<lambda>s. s\<lparr>recall_val_avg :=
               Averager_add (m_recall (calculate_metrics preds labels (length images)))
                 (recall_val_avg s)\<rparr>)]
           (call_lib Criterion (call_lib Forward (model_eval s))))"
proof (cases "model_forward env (state_dict s) False images")
  case (Inl e)
  then show ?thesis
    using forward_raises [of e]
    by (simp add: validation_step_def forward_def)
next
  case (Inr preds)
  show ?thesis
  proof (cases "length labels = length preds")
    case False
    then show ?thesis
      using Inr loss_raises
      by (simp add: validation_step_def forward_def criterion_def)
  next
    case True
    show ?thesis
    proof (cases "bce_loss env preds labels")
      case (Inl e)
      then show ?thesis
        using Inr True loss_raises [of e]
        by (simp add: validation_step_def forward_def criterion_def)
    next
      case loss: (Inr loss)
      show ?thesis
        using Inr True loss returns [of preds loss]
        by (simp add: validation_step_def forward_def criterion_def Let_def)
    qed
  qed
qed

lemma validation_step_effect:
  assumes "s' = final_state (validation_step env b i s)"
  shows "calls s' = calls s @ calls_since s s'"
    and "\<forall>c\<in>set (calls_since s s'). is_step_call c"
    and "best_f1 s' = best_f1 s" and "files s' = files s" and "hparams s' = hparams s"
    and "state_dict s' = state_dict s"
proof -
  obtain images labels ids where b: "b = (images, labels, ids)"
    by (cases b) auto
  have "calls s' = calls s @ calls_since s s' \<and>
        (\<forall>c\<in>set (calls_since s s'). is_step_call c) \<and>
        best_f1 s' = best_f1 s \<and> files s' = files s \<and> hparams s' = hparams s \<and>
        state_dict s' = state_dict s"
    unfolding assms b
    by (cases rule: validation_step_cases [of env images labels ids i s])
       (simp_all add: final_state_def is_step_call_def calls_since_def)
  then show "calls s' = calls s @ calls_since s s'"
    and "\<forall>c\<in>set (calls_since s s'). is_step_call c"
    and "best_f1 s' = best_f1 s" and "files s' = files s" and "hparams s' = hparams s"
    and "state_dict s' = state_dict s"
    by simp_all
qed

lemma on_train_epoch_end_cases:
  obtains (detached) "optim s = None" "on_train_epoch_end env s = Inl (RuntimeError ''LitModel is not attached to a Trainer'', s)"
  | (returns) x where "optim s = Some x"
      "on_train_epoch_end env s = Inr (scheduler_step env Head (scheduler_step env Feat s))"
  by (cases "optim s") (simp_all add: on_train_epoch_end_def lr_schedulers_def)

lemma on_train_epoch_end_effect:
  assumes "s' = final_state (on_train_epoch_end env s)"
  shows "calls s' = calls s @ calls_since s s'"
    and "\<forall>c\<in>set (calls_since s s'). c = SchedulerStep Feat \<or> c = SchedulerStep Head"
    and "best_f1 s' = best_f1 s" and "files s' = files s" and "hparams s' = hparams s"
    and "state_dict s' = state_dict s"
proof -
  have "calls s' = calls s @ calls_since s s' \<and>
        (\<forall>c\<in>set (calls_since s s'). c = SchedulerStep Feat \<or> c = SchedulerStep Head) \<and>
        best_f1 s' = best_f1 s \<and> files s' = files s \<and> hparams s' = hparams s \<and>
        state_dict s' = state_dict s"
    unfolding assms
    by (cases rule: on_train_epoch_end_cases [of s env])
       (simp_all add: final_state_def calls_since_def)
  then show "calls s' = calls s @ calls_since s s'"
    and "\<forall>c\<in>set (calls_since s s'). c = SchedulerStep Feat \<or> c = SchedulerStep Head"
    and "best_f1 s' = best_f1 s" and "files s' = files s" and "hparams s' = hparams s"
    and "state_dict s' = state_dict s"
    by simp_all
qed

text \<open>The validation epoch end.\<close>

lemma on_validation_epoch_end_calls:
  "calls (on_validation_epoch_end s) = calls s @
     (if fgt (Averager_val (f1_val_avg s)) (best_f1 s)
      then [TorchSave (val_path (hparams s))] else []) @
     [Print (replicate 10 CHR ''-''),
      PrintValue ''Validation loss: '' (Averager_val (loss_val_avg s)),
      PrintValue ''Validation accuracy: '' (Averager_val (acc_val_avg s)),
      PrintValue ''Validation f1: '' (Averager_val (f1_val_avg s)),
      PrintValue ''Validation precision: '' (Averager_val (precision_val_avg s)),
      PrintValue ''Validation recall: '' (Averager_val (recall_val_avg s))]"
  by (cases "fgt (Averager_val (f1_val_avg s)) (best_f1 s)")
     (simp_all add: on_validation_epoch_end_def Let_def)

lemma on_validation_epoch_end_fields:
  "best_f1 (on_validation_epoch_end s) =
     (if fgt (Averager_val (f1_val_avg s)) (best_f1 s)
      then Averager_val (f1_val_avg s) else best_f1 s)"
  "files (on_validation_epoch_end s) =
     (if fgt (Averager_val (f1_val_avg s)) (best_f1 s)
      then (files s)(val_path (hparams s) \<mapsto> state_dict s) else files s)"
  "hparams (on_validation_epoch_end s) = hparams s"
  "state_dict (on_validation_epoch_end s) = state_dict s"
  "optim (on_validation_epoch_end s) = optim s"
  by (cases "fgt (Averager_val (f1_val_avg s)) (best_f1 s)",
      simp_all add: on_validation_epoch_end_def Let_def)+

subsection \<open>The order on floats\<close>

lemma fgt_NaN [simp]: "\<not> fgt NaN x" "\<not> fgt x NaN"
  by (cases x; simp)+

lemma fgt_irrefl [simp]: "\<not> fgt x x"
  by (cases x) simp_all

lemma fgt_trans: "fgt a b \<Longrightarrow> fgt b c \<Longrightarrow> fgt a c"
  by (cases a; cases b; cases c) simp_all

lemma fgt_total: "a \<noteq> NaN \<Longrightarrow> b \<noteq> NaN \<Longrightarrow> a = b \<or> fgt a b \<or> fgt b a"
  by (cases a; cases b) auto

subsection \<open>Observations on appended calls\<close>

lemma epoch_f1s_append [simp]: "epoch_f1s (cs @ ds) = epoch_f1s cs @ epoch_f1s ds"
  by (simp add: epoch_f1s_def)

lemma checkpoint_trace_append [simp]:
  "checkpoint_trace p (cs @ ds) = checkpoint_trace p cs @ checkpoint_trace p ds"
  by (simp add: checkpoint_trace_def)

lemma quiet_calls:
  assumes "\<forall>c\<in>set cs. is_step_call c \<or> c = SchedulerStep Feat \<or> c = SchedulerStep Head"
  shows "epoch_f1s cs = []" and "checkpoint_trace p cs = []" and "filter is_save cs = []"
    and "filter is_load cs = []"
  using assms
  by (induction cs)
     (auto simp: epoch_f1s_def checkpoint_trace_def printed_f1_def is_step_call_def is_save_def
        is_load_def split: call.splits)

lemma spec_checkpoint_trace_append:
  "spec_checkpoint_trace p b (vs @ ws) =
     spec_checkpoint_trace p b vs @ spec_checkpoint_trace p (spec_best_f1 b vs) ws"
  by (induction vs arbitrary: b) simp_all

lemma spec_best_f1_append: "spec_best_f1 b (vs @ ws) = spec_best_f1 (spec_best_f1 b vs) ws"
  by (induction vs arbitrary: b) simp_all

lemma spec_best_f1_mono: "spec_best_f1 b vs = b \<or> fgt (spec_best_f1 b vs) b"
proof (induction vs arbitrary: b)
  case Nil
  show ?case by simp
next
  case (Cons v vs)
  show ?case
    using Cons.IH [of v] Cons.IH [of b] fgt_trans [of "spec_best_f1 v vs" v b]
    by auto
qed

lemma spec_best_f1_maximum: "b \<noteq> NaN \<Longrightarrow> is_maximum (spec_best_f1 b vs) (b # vs)"
proof (induction vs arbitrary: b)
  case Nil
  then show ?case by (simp add: is_maximum_def)
next
  case (Cons v vs)
  let ?b' = "if fgt v b then v else b"
  let ?m = "spec_best_f1 ?b' vs"
  have b': "?b' \<noteq> NaN"
    using Cons.prems by auto
  have ih: "is_maximum ?m (?b' # vs)"
    using Cons.IH [OF b'] .
  have m_b': "?b' = ?m \<or> fgt ?m ?b'"
    using ih b' by (auto simp: is_maximum_def)
  have "?m \<in> set (b # v # vs)"
    using ih by (auto simp: is_maximum_def split: if_splits)
  moreover have "b = ?m \<or> fgt ?m b"
    using m_b' fgt_trans [of ?m v b] by (auto split: if_splits)
  moreover have "v = NaN \<or> v = ?m \<or> fgt ?m v"
  proof (cases "fgt v b")
    case True
    then show ?thesis using m_b' by auto
  next
    case False
    show ?thesis
    proof (cases "v = NaN")
      case True
      then show ?thesis by simp
    next
      case nn: False
      from fgt_total [OF nn Cons.prems] False have "v = b \<or> fgt b v" by auto
      then show ?thesis
        using m_b' False fgt_trans [of ?m b v] by auto
    qed
  qed
  moreover have "\<forall>x\<in>set vs. x = NaN \<or> x = ?m \<or> fgt ?m x"
    using ih by (simp add: is_maximum_def)
  ultimately show ?case
    by (simp add: is_maximum_def)
qed

subsection \<open>What one hook call does\<close>

lemma call_hook_other:
  assumes "ev \<noteq> OnValidationEpochEnd" and "s' = final_state (call_hook env ev s)"
  shows "calls s' = calls s @ calls_since s s'"
    and "\<forall>c\<in>set (calls_since s s'). is_step_call c \<or> c = SchedulerStep Feat \<or> c = SchedulerStep Head"
    and "best_f1 s' = best_f1 s" and "files s' = files s" and "hparams s' = hparams s"
proof -
  have "calls s' = calls s @ calls_since s s' \<and>
    (\<forall>c\<in>set (calls_since s s'). is_step_call c \<or> c = SchedulerStep Feat \<or> c = SchedulerStep Head) \<and>
    best_f1 s' = best_f1 s \<and> files s' = files s \<and> hparams s' = hparams s"
  proof (cases ev)
    case (TrainingStep b i)
    then show ?thesis
      using training_step_effect [of s' env b i s] assms(2) by (simp add: call_hook_def)
  next
    case OnTrainEpochEnd
    then show ?thesis
      using on_train_epoch_end_effect [of s' env s] assms(2) by (auto simp: call_hook_def)
  next
    case (ValidationStep b i)
    then show ?thesis
      using validation_step_effect [of s' env b i s] assms(2) by (simp add: call_hook_def)
  next
    case OnValidationEpochEnd
    then show ?thesis using assms(1) by simp
  qed
  then show "calls s' = calls s @ calls_since s s'"
    and "\<forall>c\<in>set (calls_since s s'). is_step_call c \<or> c = SchedulerStep Feat \<or> c = SchedulerStep Head"
    and "best_f1 s' = best_f1 s" and "files s' = files s" and "hparams s' = hparams s"
    by simp_all
qed

lemma call_hook_val_end:
  "final_state (call_hook env OnValidationEpochEnd s) = on_validation_epoch_end s"
  by (simp add: call_hook_def final_state_def)

lemma on_validation_epoch_end_since:
  "calls_since s (on_validation_epoch_end s) =
     (if fgt (Averager_val (f1_val_avg s)) (best_f1 s)
      then [TorchSave (val_path (hparams s))] else []) @
     [Print (replicate 10 CHR ''-''),
      PrintValue ''Validation loss: '' (Averager_val (loss_val_avg s)),
      PrintValue ''Validation accuracy: '' (Averager_val (acc_val_avg s)),
      PrintValue ''Validation f1: '' (Averager_val (f1_val_avg s)),
      PrintValue ''Validation precision: '' (Averager_val (precision_val_avg s)),
      PrintValue ''Validation recall: '' (Averager_val (recall_val_avg s))]"
  by (rule calls_since_append) (rule on_validation_epoch_end_calls)

text \<open>One hook call follows the checkpoint policy.\<close>

lemma call_hook_trace:
  assumes "s' = final_state (call_hook env ev s)"
  shows "calls s' = calls s @ calls_since s s'"
    and "hparams s' = hparams s"
    and "checkpoint_trace (val_path (hparams s)) (calls_since s s') =
           spec_checkpoint_trace (val_path (hparams s)) (best_f1 s) (epoch_f1s (calls_since s s'))"
    and "best_f1 s' = spec_best_f1 (best_f1 s) (epoch_f1s (calls_since s s'))"
proof -
  have "calls s' = calls s @ calls_since s s' \<and> hparams s' = hparams s \<and>
    checkpoint_trace (val_path (hparams s)) (calls_since s s') =
      spec_checkpoint_trace (val_path (hparams s)) (best_f1 s) (epoch_f1s (calls_since s s')) \<and>
    best_f1 s' = spec_best_f1 (best_f1 s) (epoch_f1s (calls_since s s'))"
  proof (cases "ev = OnValidationEpochEnd")
    case True
    then have s': "s' = on_validation_epoch_end s"
      using assms by (simp add: call_hook_val_end)
    show ?thesis
      unfolding s' on_validation_epoch_end_since
      by (simp add: on_validation_epoch_end_calls on_validation_epoch_end_fields
          checkpoint_trace_def epoch_f1s_def printed_f1_def)
  next
    case False
    from call_hook_other [OF False assms] quiet_calls [of "calls_since s s'"]
    show ?thesis by simp
  qed
  then show "calls s' = calls s @ calls_since s s'"
    and "hparams s' = hparams s"
    and "checkpoint_trace (val_path (hparams s)) (calls_since s s') =
           spec_checkpoint_trace (val_path (hparams s)) (best_f1 s) (epoch_f1s (calls_since s s'))"
    and "best_f1 s' = spec_best_f1 (best_f1 s) (epoch_f1s (calls_since s s'))"
    by simp_all
qed

subsection \<open>What a run of hook calls does\<close>

lemma run_hooks_step:
  "final_state (run_hooks env (ev # evs) s) =
     (case call_hook env ev s of
        Inl e \<Rightarrow> final_state (call_hook env ev s)
      | Inr s1 \<Rightarrow> final_state (run_hooks env evs s1))"
  by (simp add: final_state_def split: sum.split)

lemma calls_since_trans:
  assumes "calls s1 = calls s @ calls_since s s1" and "calls s2 = calls s1 @ calls_since s1 s2"
  shows "calls_since s s2 = calls_since s s1 @ calls_since s1 s2"
    and "calls s2 = calls s @ calls_since s s2"
proof -
  have "calls s2 = calls s @ (calls_since s s1 @ calls_since s1 s2)"
    using assms by simp
  then show "calls_since s s2 = calls_since s s1 @ calls_since s1 s2"
    by (rule calls_since_append)
  then show "calls s2 = calls s @ calls_since s s2"
    using assms by simp
qed

lemma run_hooks_trace:
  assumes "s' = final_state (run_hooks env evs s)"
  shows "calls s' = calls s @ calls_since s s' \<and> hparams s' = hparams s \<and>
    checkpoint_trace (val_path (hparams s)) (calls_since s s') =
      spec_checkpoint_trace (val_path (hparams s)) (best_f1 s) (epoch_f1s (calls_since s s')) \<and>
    best_f1 s' = spec_best_f1 (best_f1 s) (epoch_f1s (calls_since s s'))"
  using assms
proof (induction evs arbitrary: s)
  case Nil
  then show ?case by (simp add: final_state_def epoch_f1s_def checkpoint_trace_def)
next
  case (Cons ev evs)
  define s1 where "s1 = final_state (call_hook env ev s)"
  note h = call_hook_trace [OF s1_def]
  show ?case
  proof (cases "call_hook env ev s")
    case (Inl e)
    then have "s' = s1"
      using Cons.prems by (simp add: s1_def run_hooks_step)
    then show ?thesis using h by simp
  next
    case (Inr s1')
    then have s1': "s1' = s1"
      by (simp add: s1_def final_state_def)
    then have "s' = final_state (run_hooks env evs s1)"
      using Cons.prems Inr by (simp add: run_hooks_step)
    from Cons.IH [OF this] have ih:
      "calls s' = calls s1 @ calls_since s1 s'" "hparams s' = hparams s1"
      "checkpoint_trace (val_path (hparams s1)) (calls_since s1 s') =
         spec_checkpoint_trace (val_path (hparams s1)) (best_f1 s1) (epoch_f1s (calls_since s1 s'))"
      "best_f1 s' = spec_best_f1 (best_f1 s1) (epoch_f1s (calls_since s1 s'))"
      by simp_all
    note t = calls_since_trans [OF h(1) ih(1)]
    show ?thesis
      using h ih t
      by (simp add: spec_checkpoint_trace_append spec_best_f1_append)
  qed
qed

section \<open>Running the model on the small instance\<close>

lemmas eval_defs = call_lib_def run_all_def model_train_def model_eval_def forward_def criterion_def
  optimizers_def lr_schedulers_def zero_grad_def manual_backward_def clip_gradients_def
  optimizer_step_def scheduler_step_def current_lr_def self_log_def print_def print_value_def
  torch_save_def torch_load_def load_state_dict_def
  toy_batch_def toy_row_def toy_torch_def toy_args_def toy_validation_epochs_def
  calculate_metrics_def t_gt_def t_float_def t_mul_def t_rsub_def t_eq_def b_sum_def fsub_def
  Averager_def Averager_add_def Averager_val_def Averager_reset_def
  validation_step_def training_step_def on_train_epoch_end_def on_validation_epoch_end_def
  call_hook_def LitModel_def final_state_def calls_since_def
  epoch_f1s_def printed_f1_def checkpoint_trace_def val_path_def inf_of_sign_def Let_def

section \<open>The best-F1 checkpoint\<close>

text \<open>
  C1. At each validation epoch end the best-F1 checkpoint (saved_models/{model}_val.pt)
  is written if and only if the epoch's averaged F1 strictly exceeds the best F1 so far,
  and the best F1 becomes the current average in exactly that case. Over any run of
  hooks, the checkpoint writes and epoch averages a run shows are those of the policy
  started at the best F1 of the state the run starts in; and from a best F1 of 0.0, with
  the epoch averages 0.3, 0.5, 0.4, 0.6, the checkpoint is written after epochs 1, 2 and
  4 only.
\<close>

theorem checkpoint_written_iff_f1_improves:
  "(let current_f1 = Averager_val (f1_val_avg s); s' = on_validation_epoch_end s in
      (TorchSave (val_path (hparams s)) \<in> set (calls_since s s')) = fgt current_f1 (best_f1 s) \<and>
      files s' = (if fgt current_f1 (best_f1 s)
                  then (files s)(val_path (hparams s) \<mapsto> state_dict s) else files s) \<and>
      best_f1 s' = (if fgt current_f1 (best_f1 s) then current_f1 else best_f1 s))
   \<and> (let s' = final_state (run_hooks env evs s); p = val_path (hparams s) in
        checkpoint_trace p (calls_since s s') =
          spec_checkpoint_trace p (best_f1 s) (epoch_f1s (calls_since s s')) \<and>
        (best_f1 s = Num 0 \<longrightarrow>
         epoch_f1s (calls_since s s') = [Num 0.3, Num 0.5, Num 0.4, Num 0.6] \<longrightarrow>
         checkpoint_trace p (calls_since s s') =
           [TorchSave p, PrintValue ''Validation f1: '' (Num 0.3),
            TorchSave p, PrintValue ''Validation f1: '' (Num 0.5),
            PrintValue ''Validation f1: '' (Num 0.4),
            TorchSave p, PrintValue ''Validation f1: '' (Num 0.6)]))"
proof -
  have one: "(let current_f1 = Averager_val (f1_val_avg s); s' = on_validation_epoch_end s in
      (TorchSave (val_path (hparams s)) \<in> set (calls_since s s')) = fgt current_f1 (best_f1 s) \<and>
      files s' = (if fgt current_f1 (best_f1 s)
                  then (files s)(val_path (hparams s) \<mapsto> state_dict s) else files s) \<and>
      best_f1 s' = (if fgt current_f1 (best_f1 s) then current_f1 else best_f1 s))"
    by (simp add: Let_def on_validation_epoch_end_since on_validation_epoch_end_fields)
  define s' where "s' = final_state (run_hooks env evs s)"
  define p where "p = val_path (hparams s)"
  have run: "checkpoint_trace p (calls_since s s') =
      spec_checkpoint_trace p (best_f1 s) (epoch_f1s (calls_since s s'))"
    using run_hooks_trace [OF s'_def] by (simp add: p_def)
  have "checkpoint_trace p (calls_since s s') =
           [TorchSave p, PrintValue ''Validation f1: '' (Num 0.3),
            TorchSave p, PrintValue ''Validation f1: '' (Num 0.5),
            PrintValue ''Validation f1: '' (Num 0.4),
            TorchSave p, PrintValue ''Validation f1: '' (Num 0.6)]"
    if "best_f1 s = Num 0" "epoch_f1s (calls_since s s') = [Num 0.3, Num 0.5, Num 0.4, Num 0.6]"
    using run that by simp
  with one run show ?thesis
    by (simp add: Let_def s'_def p_def)
qed

theorem checkpoint_written_iff_f1_improves_witness:
  "best_f1 (LitModel (0::nat) toy_args Map.empty :: (nat, nat \<times> nat) pl_state) = Num 0 \<and>
   epoch_f1s (calls_since (LitModel 0 toy_args Map.empty)
     (final_state (run_hooks toy_torch toy_validation_epochs
        (LitModel (0::nat) toy_args Map.empty :: (nat, nat \<times> nat) pl_state)))) =
     [Num 0.3, Num 0.5, Num 0.4, Num 0.6] \<and>
   checkpoint_trace ''saved_models/resnet_val.pt''
     (calls_since (LitModel 0 toy_args Map.empty)
       (final_state (run_hooks toy_torch toy_validation_epochs
          (LitModel (0::nat) toy_args Map.empty :: (nat, nat \<times> nat) pl_state)))) =
     [TorchSave ''saved_models/resnet_val.pt'', PrintValue ''Validation f1: '' (Num 0.3),
      TorchSave ''saved_models/resnet_val.pt'', PrintValue ''Validation f1: '' (Num 0.5),
      PrintValue ''Validation f1: '' (Num 0.4),
      TorchSave ''saved_models/resnet_val.pt'', PrintValue ''Validation f1: '' (Num 0.6)]"
proof -
  let ?s = "LitModel (0::nat) toy_args Map.empty :: (nat, nat \<times> nat) pl_state"
  have b: "best_f1 ?s = Num 0"
    by (simp add: LitModel_def)
  have p: "val_path (hparams ?s) = ''saved_models/resnet_val.pt''"
    by (simp add: LitModel_def val_path_def toy_args_def)
  have f: "epoch_f1s (calls_since ?s (final_state (run_hooks toy_torch toy_validation_epochs ?s))) =
     [Num 0.3, Num 0.5, Num 0.4, Num 0.6]"
    by (simp add: eval_defs eval_nat_numeral)
  show ?thesis
    using checkpoint_written_iff_f1_improves [of ?s toy_torch toy_validation_epochs] b f
    unfolding Let_def p
    by simp
qed

section \<open>The best-F1 tracker\<close>

text \<open>
  C2. The best-F1 tracker is a scalar that never decreases over a run (after any run of
  hooks it is what it was, or greater); started at its initial value 0.0, after a run it
  is the maximum of 0.0 and the epoch-average F1 values observed in the run; and every
  hook call that changes it writes the checkpoint with the parameters of that moment.
\<close>

theorem best_f1_is_running_maximum:
  "(let s' = final_state (run_hooks env evs s) in
      (best_f1 s' = best_f1 s \<or> fgt (best_f1 s') (best_f1 s)) \<and>
      (best_f1 s = Num 0 \<longrightarrow> is_maximum (best_f1 s') (Num 0 # epoch_f1s (calls_since s s'))))
   \<and> (let s' = final_state (call_hook env ev s) in
        best_f1 s' \<noteq> best_f1 s \<longrightarrow>
          fgt (best_f1 s') (best_f1 s) \<and>
          TorchSave (val_path (hparams s)) \<in> set (calls_since s s') \<and>
          files s' (val_path (hparams s)) = Some (state_dict s))"
proof -
  define s' where "s' = final_state (run_hooks env evs s)"
  have b: "best_f1 s' = spec_best_f1 (best_f1 s) (epoch_f1s (calls_since s s'))"
    using run_hooks_trace [OF s'_def] by simp
  have mono: "best_f1 s' = best_f1 s \<or> fgt (best_f1 s') (best_f1 s)"
    unfolding b by (rule spec_best_f1_mono)
  have mx: "is_maximum (best_f1 s') (Num 0 # epoch_f1s (calls_since s s'))" if "best_f1 s = Num 0"
    unfolding b that by (rule spec_best_f1_maximum) simp
  define t where "t = final_state (call_hook env ev s)"
  have step: "fgt (best_f1 t) (best_f1 s) \<and>
          TorchSave (val_path (hparams s)) \<in> set (calls_since s t) \<and>
          files t (val_path (hparams s)) = Some (state_dict s)" if ne: "best_f1 t \<noteq> best_f1 s"
  proof (cases "ev = OnValidationEpochEnd")
    case True
    then have t: "t = on_validation_epoch_end s"
      by (simp add: t_def call_hook_val_end)
    from ne have "fgt (Averager_val (f1_val_avg s)) (best_f1 s)"
      unfolding t by (simp add: on_validation_epoch_end_fields split: if_splits)
    then show ?thesis
      unfolding t by (simp add: on_validation_epoch_end_since on_validation_epoch_end_fields)
  next
    case False
    from call_hook_other(3) [OF False t_def] ne show ?thesis by simp
  qed
  from mono mx step show ?thesis
    by (simp add: Let_def s'_def t_def)
qed

theorem best_f1_is_running_maximum_witness:
  "best_f1 (LitModel (0::nat) toy_args Map.empty :: (nat, nat \<times> nat) pl_state) = Num 0 \<and>
   best_f1 (final_state (run_hooks toy_torch toy_validation_epochs
        (LitModel (0::nat) toy_args Map.empty :: (nat, nat \<times> nat) pl_state))) = Num 0.6 \<and>
   is_maximum (Num 0.6) [Num 0, Num 0.3, Num 0.5, Num 0.4, Num 0.6] \<and>
   best_f1 (final_state (call_hook toy_torch OnValidationEpochEnd
        (final_state (call_hook toy_torch (ValidationStep (toy_batch 3 7 7) 0)
           (LitModel (0::nat) toy_args Map.empty :: (nat, nat \<times> nat) pl_state))))) = Num 0.3 \<and>
   files (final_state (call_hook toy_torch OnValidationEpochEnd
        (final_state (call_hook toy_torch (ValidationStep (toy_batch 3 7 7) 0)
           (LitModel (0::nat) toy_args Map.empty :: (nat, nat \<times> nat) pl_state)))))
     ''saved_models/resnet_val.pt'' = Some 0"
proof -
  let ?s = "LitModel (0::nat) toy_args Map.empty :: (nat, nat \<times> nat) pl_state"
  let ?t = "final_state (call_hook toy_torch (ValidationStep (toy_batch 3 7 7) 0) ?s)"
  have b: "best_f1 ?s = Num 0"
    by (simp add: LitModel_def)
  have f: "epoch_f1s (calls_since ?s (final_state (run_hooks toy_torch toy_validation_epochs ?s))) =
     [Num 0.3, Num 0.5, Num 0.4, Num 0.6]"
    by (simp add: eval_defs eval_nat_numeral)
  have e: "best_f1 (final_state (run_hooks toy_torch toy_validation_epochs ?s)) = Num 0.6"
    by (simp add: eval_defs eval_nat_numeral)
  have t: "best_f1 ?t = Num 0" "hparams ?t = toy_args" "state_dict ?t = 0"
    "best_f1 (final_state (call_hook toy_torch OnValidationEpochEnd ?t)) = Num 0.3"
    by (simp_all add: eval_defs eval_nat_numeral)
  have p: "val_path toy_args = ''saved_models/resnet_val.pt''"
    by (simp add: val_path_def toy_args_def)
  from best_f1_is_running_maximum [of toy_torch toy_validation_epochs ?s OnValidationEpochEnd]
  have "is_maximum (Num 0.6) [Num 0, Num 0.3, Num 0.5, Num 0.4, Num 0.6]"
    unfolding Let_def using b f e by simp
  moreover
  from best_f1_is_running_maximum [of toy_torch "[]" ?t OnValidationEpochEnd]
  have "files (final_state (call_hook toy_torch OnValidationEpochEnd ?t))
     ''saved_models/resnet_val.pt'' = Some 0"
    unfolding Let_def using t p by simp
  ultimately show ?thesis
    using b e t by simp
qed

section \<open>The training step\<close>

text \<open>
  C3. For every training batch on which the forward pass and the loss return, the step
  makes these calls in this order: the forward pass in training mode, the binary
  cross-entropy loss against the labels, zero_grad on both optimizers, one backward pass
  of the loss, gradient clipping by norm with the configured threshold on each optimizer
  on its own, and then a step of both optimizers (and the three log calls). The
  parameters and optimizer internals it leaves are those of the library's functions
  applied in that order.
\<close>

theorem training_step_order:
  assumes "optim s = Some x"
    and "model_forward env (state_dict s) True images = Inr preds"
    and "length labels = length preds"
    and "bce_loss env preds labels = Inr loss"
  shows "\<exists>s'. training_step env (images, labels, ids) batch_idx s = Inr s' \<and>
     calls_since s s' =
       [ModelTrain, Forward, Criterion, ZeroGrad Feat, ZeroGrad Head, ManualBackward,
        ClipGradients Feat (clip_grad (hparams s)) ''norm'',
        ClipGradients Head (clip_grad (hparams s)) ''norm'',
        OptimizerStep Feat, OptimizerStep Head,
        Log ''loss'' loss, Log ''feat_lr'' (current_lr env Feat s'),
        Log ''head_lr'' (current_lr env Head s')] \<and>
     (let g = clip_f env Head (clip_grad (hparams s))
                (clip_f env Feat (clip_grad (hparams s))
                  (backward_f env (state_dict s) images labels
                    (zero_grad_f env Head (zero_grad_f env Feat x))));
          r1 = opt_step_f env Feat g (state_dict s);
          r2 = opt_step_f env Head (snd r1) (fst r1)
      in state_dict s' = fst r2 \<and> optim s' = Some (snd r2))"
  using assms
  by (simp add: training_step_def optimizers_def forward_def criterion_def calls_since_def
      current_lr_def Let_def)

theorem training_step_order_witness:
  "optim ((LitModel (0::nat) toy_args Map.empty :: (nat, nat \<times> nat) pl_state)\<lparr>optim := Some (0, 0)\<rparr>)
     = Some (0, 0) \<and>
   model_forward toy_torch (0::nat) True (fst (toy_batch 2 0 0)) = Inr (concat (fst (toy_batch 2 0 0))) \<and>
   length (fst (snd (toy_batch 2 0 0))) = length (concat (fst (toy_batch 2 0 0))) \<and>
   bce_loss toy_torch (concat (fst (toy_batch 2 0 0))) (fst (snd (toy_batch 2 0 0))) = Inr (Num 0) \<and>
   (\<exists>s'. training_step toy_torch (toy_batch 2 0 0) 0
            ((LitModel (0::nat) toy_args Map.empty :: (nat, nat \<times> nat) pl_state)\<lparr>optim := Some (0, 0)\<rparr>)
          = Inr s' \<and>
      calls s' =
       [ModelTrain, Forward, Criterion, ZeroGrad Feat, ZeroGrad Head, ManualBackward,
        ClipGradients Feat (Num 1) ''norm'', ClipGradients Head (Num 1) ''norm'',
        OptimizerStep Feat, OptimizerStep Head,
        Log ''loss'' (Num 0), Log ''feat_lr'' (Num 0.001), Log ''head_lr'' (Num 0.001)] \<and>
      state_dict s' = 2 \<and> optim s' = Some (1, 0))"
proof -
  let ?s = "(LitModel (0::nat) toy_args Map.empty :: (nat, nat \<times> nat) pl_state)\<lparr>optim := Some (0, 0)\<rparr>"
  let ?b = "toy_batch 2 0 0"
  have h1: "optim ?s = Some (0, 0)"
    by simp
  have h2: "model_forward toy_torch (state_dict ?s) True (fst ?b) = Inr (concat (fst ?b))"
    by (simp add: toy_torch_def)
  have h3: "length (fst (snd ?b)) = length (concat (fst ?b))"
    by (simp add: toy_batch_def toy_row_def Let_def)
  have h4: "bce_loss toy_torch (concat (fst ?b)) (fst (snd ?b)) = Inr (Num 0)"
    by (simp add: toy_torch_def)
  have b: "(fst ?b, fst (snd ?b), snd (snd ?b)) = ?b"
    by simp
  from training_step_order [OF h1 h2 h3 h4, of "snd (snd ?b)" 0]
  obtain s' where s': "training_step toy_torch ?b 0 ?s = Inr s'"
    and c: "calls_since ?s s' =
       [ModelTrain, Forward, Criterion, ZeroGrad Feat, ZeroGrad Head, ManualBackward,
        ClipGradients Feat (clip_grad (hparams ?s)) ''norm'',
        ClipGradients Head (clip_grad (hparams ?s)) ''norm'',
        OptimizerStep Feat, OptimizerStep Head,
        Log ''loss'' (Num 0), Log ''feat_lr'' (current_lr toy_torch Feat s'),
        Log ''head_lr'' (current_lr toy_torch Head s')]"
    and r: "(let g = clip_f toy_torch Head (clip_grad (hparams ?s))
                (clip_f toy_torch Feat (clip_grad (hparams ?s))
                  (backward_f toy_torch (state_dict ?s) (fst ?b) (fst (snd ?b))
                    (zero_grad_f toy_torch Head (zero_grad_f toy_torch Feat (0, 0)))));
          r1 = opt_step_f toy_torch Feat g (state_dict ?s);
          r2 = opt_step_f toy_torch Head (snd r1) (fst r1)
      in state_dict s' = fst r2 \<and> optim s' = Some (snd r2))"
    unfolding b by blast
  from r have r': "state_dict s' = 2" "optim s' = Some (1, 0)"
    by (simp_all add: Let_def toy_torch_def LitModel_def)
  have "calls s' = calls ?s @ calls_since ?s s'"
    using training_step_effect(1) [of s' toy_torch ?b 0 ?s] s' by (simp add: final_state_def)
  with c r' have "calls s' =
       [ModelTrain, Forward, Criterion, ZeroGrad Feat, ZeroGrad Head, ManualBackward,
        ClipGradients Feat (Num 1) ''norm'', ClipGradients Head (Num 1) ''norm'',
        OptimizerStep Feat, OptimizerStep Head,
        Log ''loss'' (Num 0), Log ''feat_lr'' (Num 0.001), Log ''head_lr'' (Num 0.001)]"
    by (simp add: LitModel_def toy_args_def current_lr_def toy_torch_def)
  with s' r' h1 h2 h3 h4 show ?thesis
    by (simp add: LitModel_def)
qed

section \<open>The validation metrics\<close>

lemma map2_nth:
  "length xs = length ys \<Longrightarrow> map2 f xs ys = map (\<lambda>i. f (xs ! i) (ys ! i)) [0..<length ys]"
  by (rule nth_equalityI) simp_all

lemma binarized_nth:
  "i < length probs \<Longrightarrow>
     t_float (t_gt probs c) ! i = (if fgt (probs ! i) c then Num 1 else Num 0)"
  by (simp add: t_float_def t_gt_def)

lemma t_mul_spec:
  assumes "length probs = length labels"
  shows "t_mul (t_float (t_gt probs (Num 0.5))) (map g labels) =
         map (\<lambda>i. fmul (spec_pred probs i) (g (labels ! i))) [0..<length labels]"
proof -
  have "length (t_float (t_gt probs (Num 0.5))) = length (map g labels)"
    using assms by (simp add: t_float_def t_gt_def)
  from map2_nth [OF this, of fmul] show ?thesis
    unfolding t_mul_def using assms by (simp add: binarized_nth spec_pred_def)
qed

lemma t_mul_spec_fn:
  assumes "length probs = length labels"
  shows "t_mul (t_rsub (Num 1) (t_float (t_gt probs (Num 0.5)))) labels =
         map (\<lambda>i. fmul (fsub (Num 1) (spec_pred probs i)) (labels ! i)) [0..<length labels]"
proof -
  have "length (t_rsub (Num 1) (t_float (t_gt probs (Num 0.5)))) = length labels"
    using assms by (simp add: t_rsub_def t_float_def t_gt_def)
  from map2_nth [OF this, of fmul] show ?thesis
    unfolding t_mul_def using assms by (simp add: t_rsub_def spec_pred_def t_float_def t_gt_def)
qed

lemma b_sum_spec:
  assumes "length probs = length labels"
  shows "b_sum (t_eq (t_float (t_gt probs (Num 0.5))) labels) = spec_matches probs labels"
proof -
  have "length (t_float (t_gt probs (Num 0.5))) = length labels"
    using assms by (simp add: t_float_def t_gt_def)
  from map2_nth [OF this, of feq]
  have "t_eq (t_float (t_gt probs (Num 0.5))) labels =
        map (\<lambda>i. feq (spec_pred probs i) (labels ! i)) [0..<length labels]"
    unfolding t_eq_def using assms by (simp add: binarized_nth spec_pred_def)
  then show ?thesis
    by (simp add: b_sum_def spec_matches_def filter_map comp_def)
qed

lemma calculate_metrics_spec:
  assumes "length labels = length probs"
  shows "calculate_metrics probs labels B =
     \<lparr>m_acc = spec_accuracy probs labels B, m_tp = spec_TP probs labels,
      m_fp = spec_FP probs labels, m_fn = spec_FN probs labels,
      m_precision = spec_precision probs labels, m_recall = spec_recall probs labels,
      m_f1 = spec_F1 probs labels\<rparr>"
proof -
  have l: "length probs = length labels"
    using assms by simp
  have tp: "t_mul (t_float (t_gt probs (Num 0.5))) labels =
         map (\<lambda>i. fmul (spec_pred probs i) (labels ! i)) [0..<length labels]"
    using t_mul_spec [OF l, of "\<lambda>x. x"] by simp
  have fp: "t_mul (t_float (t_gt probs (Num 0.5))) (t_rsub (Num 1) labels) =
         map (\<lambda>i. fmul (spec_pred probs i) (fsub (Num 1) (labels ! i))) [0..<length labels]"
    using t_mul_spec [OF l, of "fsub (Num 1)"] by (simp add: t_rsub_def)
  show ?thesis
    unfolding calculate_metrics_def Let_def tp fp t_mul_spec_fn [OF l] b_sum_spec [OF l]
      spec_accuracy_def spec_F1_def spec_precision_def spec_recall_def spec_TP_def spec_FP_def
      spec_FN_def
    by (rule refl)
qed

text \<open>
  C5. For every validation batch of B images on which the forward pass and the loss
  return, the step binarizes the probabilities at 0.5 and logs and accumulates these
  metrics: accuracy = (count of label-wise matches) / (B * 10); with TP = sum(pred * label),
  FP = sum(pred * (1 - label)) and FN = sum((1 - pred) * label) over the whole batch and
  all labels, precision = TP / (TP + FP), recall = TP / (TP + FN) and
  F1 = 2 * P * R / (P + R).
\<close>

theorem validation_step_metrics:
  assumes "model_forward env (state_dict s) False images = Inr probs"
    and "length labels = length probs"
    and "bce_loss env probs labels = Inr loss"
  shows "\<exists>s'. validation_step env (images, labels, ids) batch_idx s = Inr s' \<and>
     calls_since s s' =
       [ModelEval, Forward, Criterion, Log ''val_loss'' loss,
        Log ''val_acc'' (spec_accuracy probs labels (length images)),
        Log ''val_f1'' (spec_F1 probs labels),
        Log ''val_precision'' (spec_precision probs labels),
        Log ''val_recall'' (spec_recall probs labels)] \<and>
     loss_val_avg s' = Averager_add loss (loss_val_avg s) \<and>
     acc_val_avg s' = Averager_add (spec_accuracy probs labels (length images)) (acc_val_avg s) \<and>
     f1_val_avg s' = Averager_add (spec_F1 probs labels) (f1_val_avg s) \<and>
     precision_val_avg s' = Averager_add (spec_precision probs labels) (precision_val_avg s) \<and>
     recall_val_avg s' = Averager_add (spec_recall probs labels) (recall_val_avg s) \<and>
     m_tp (calculate_metrics probs labels (length images)) = spec_TP probs labels \<and>
     m_fp (calculate_metrics probs labels (length images)) = spec_FP probs labels \<and>
     m_fn (calculate_metrics probs labels (length images)) = spec_FN probs labels"
  using assms
  by (simp add: validation_step_def forward_def criterion_def calls_since_def Let_def
      calculate_metrics_spec)

theorem validation_step_metrics_witness:
  "model_forward toy_torch (0::nat) False (fst (toy_batch 3 7 7)) = Inr (concat (fst (toy_batch 3 7 7))) \<and>
   length (fst (snd (toy_batch 3 7 7))) = length (concat (fst (toy_batch 3 7 7))) \<and>
   bce_loss toy_torch (concat (fst (toy_batch 3 7 7))) (fst (snd (toy_batch 3 7 7))) = Inr (Num 0) \<and>
   length (fst (toy_batch 3 7 7)) = 2 \<and>
   (\<exists>s'. validation_step toy_torch (toy_batch 3 7 7) 0
            (LitModel (0::nat) toy_args Map.empty :: (nat, nat \<times> nat) pl_state) = Inr s' \<and>
      calls s' =
        [ModelEval, Forward, Criterion, Log ''val_loss'' (Num 0), Log ''val_acc'' (Num 0.3),
         Log ''val_f1'' (Num 0.3), Log ''val_precision'' (Num 0.3), Log ''val_recall'' (Num 0.3)] \<and>
      Averager_val (f1_val_avg s') = Num 0.3 \<and>
      spec_TP (concat (fst (toy_batch 3 7 7))) (fst (snd (toy_batch 3 7 7))) = Num 3 \<and>
      spec_FP (concat (fst (toy_batch 3 7 7))) (fst (snd (toy_batch 3 7 7))) = Num 7 \<and>
      spec_FN (concat (fst (toy_batch 3 7 7))) (fst (snd (toy_batch 3 7 7))) = Num 7)"
proof -
  let ?s = "LitModel (0::nat) toy_args Map.empty :: (nat, nat \<times> nat) pl_state"
  let ?b = "toy_batch 3 7 7"
  let ?probs = "concat (fst ?b)"
  let ?labels = "fst (snd ?b)"
  have h1: "model_forward toy_torch (state_dict ?s) False (fst ?b) = Inr ?probs"
    by (simp add: toy_torch_def)
  have h2: "length ?labels = length ?probs"
    by (simp add: toy_batch_def toy_row_def Let_def)
  have h3: "bce_loss toy_torch ?probs ?labels = Inr (Num 0)"
    by (simp add: toy_torch_def)
  have n: "length (fst ?b) = 2"
    by (simp add: toy_batch_def Let_def)
  have b: "(fst ?b, ?labels, snd (snd ?b)) = ?b"
    by simp
  have m: "calculate_metrics ?probs ?labels 2 =
      \<lparr>m_acc = Num 0.3, m_tp = Num 3, m_fp = Num 7, m_fn = Num 7,
       m_precision = Num 0.3, m_recall = Num 0.3, m_f1 = Num 0.3\<rparr>"
    by (simp add: eval_defs eval_nat_numeral)
  have v: "spec_accuracy ?probs ?labels 2 = Num 0.3" "spec_TP ?probs ?labels = Num 3"
    "spec_FP ?probs ?labels = Num 7" "spec_FN ?probs ?labels = Num 7"
    "spec_precision ?probs ?labels = Num 0.3" "spec_recall ?probs ?labels = Num 0.3"
    "spec_F1 ?probs ?labels = Num 0.3"
    using calculate_metrics_spec [OF h2, of 2, symmetric] unfolding m by simp_all
  from validation_step_metrics [OF h1 h2 h3, of "snd (snd ?b)" 0]
  obtain s' where s': "validation_step toy_torch ?b 0 ?s = Inr s'"
    and c: "calls_since ?s s' =
       [ModelEval, Forward, Criterion, Log ''val_loss'' (Num 0),
        Log ''val_acc'' (spec_accuracy ?probs ?labels (length (fst ?b))),
        Log ''val_f1'' (spec_F1 ?probs ?labels),
        Log ''val_precision'' (spec_precision ?probs ?labels),
        Log ''val_recall'' (spec_recall ?probs ?labels)]"
    and f: "f1_val_avg s' = Averager_add (spec_F1 ?probs ?labels) (f1_val_avg ?s)"
    unfolding b by blast
  have "calls s' = calls ?s @ calls_since ?s s'"
    using validation_step_effect(1) [of s' toy_torch ?b 0 ?s] s' by (simp add: final_state_def)
  with c have "calls s' =
        [ModelEval, Forward, Criterion, Log ''val_loss'' (Num 0), Log ''val_acc'' (Num 0.3),
         Log ''val_f1'' (Num 0.3), Log ''val_precision'' (Num 0.3), Log ''val_recall'' (Num 0.3)]"
    unfolding n v by (simp add: LitModel_def)
  moreover have "Averager_val (f1_val_avg s') = Num 0.3"
    unfolding f v by (simp add: LitModel_def Averager_def Averager_add_def Averager_val_def)
  ultimately show ?thesis
    using s' h1 h2 h3 n v by (simp add: LitModel_def)
qed

section \<open>The unguarded divisions\<close>

lemma fadd_NaN_right [simp]: "fadd x NaN = NaN"
  by (cases x) simp_all

lemma fmul_NaN_right [simp]: "fmul x NaN = NaN"
  by (cases x) simp_all

lemma fdiv_NaN_right [simp]: "fdiv x NaN = NaN"
  by (cases x) simp_all

lemma fadd_eq_Num: "fadd x y = Num a \<Longrightarrow> \<exists>u v. x = Num u \<and> y = Num v \<and> a = u + v"
  by (cases x; cases y) auto

lemma fmul_Num_eq_Num: "fmul (Num c) l = Num u \<Longrightarrow> \<exists>r. l = Num r \<and> u = c * r"
  by (cases l) (auto simp: inf_of_sign_def split: if_splits)

text \<open>
  With finite sums, TP + FP is the number of positive predictions, whatever the labels;
  with no positive prediction TP is 0.
\<close>

lemma tp_fp_count:
  assumes "length bs = length labels"
    and "t_sum (t_mul (t_float bs) labels) = Num a"
    and "t_sum (t_mul (t_float bs) (t_rsub (Num 1) labels)) = Num b"
  shows "a + b = real (b_sum bs) \<and> (b_sum bs = 0 \<longrightarrow> a = 0)"
  using assms
proof (induction bs labels arbitrary: a b rule: list_induct2)
  case Nil
  then show ?case
    by (simp add: t_mul_def t_float_def t_rsub_def b_sum_def)
next
  case (Cons p bs l labels)
  let ?p = "if p then Num 1 else Num 0"
  from Cons.prems(1) have "fadd (fmul ?p l) (t_sum (t_mul (t_float bs) labels)) = Num a"
    by (simp add: t_mul_def t_float_def)
  from fadd_eq_Num [OF this] obtain u a' where
    u: "fmul ?p l = Num u" and a': "t_sum (t_mul (t_float bs) labels) = Num a'" and a: "a = u + a'"
    by blast
  from Cons.prems(2)
  have "fadd (fmul ?p (fsub (Num 1) l)) (t_sum (t_mul (t_float bs) (t_rsub (Num 1) labels))) = Num b"
    by (simp add: t_mul_def t_float_def t_rsub_def)
  from fadd_eq_Num [OF this] obtain v b' where
    v: "fmul ?p (fsub (Num 1) l) = Num v"
    and b': "t_sum (t_mul (t_float bs) (t_rsub (Num 1) labels)) = Num b'" and b: "b = v + b'"
    by blast
  from Cons.IH [OF a' b'] have ih: "a' + b' = real (b_sum bs)" "b_sum bs = 0 \<longrightarrow> a' = 0"
    by simp_all
  show ?case
  proof (cases p)
    case True
    with u have l: "l = Num u"
      using fmul_Num_eq_Num [of 1 l u] by auto
    with v True have "v = 1 - u"
      by (simp add: fsub_def)
    with ih a b True show ?thesis
      by (simp add: b_sum_def)
  next
    case False
    with u obtain r where l: "l = Num r" and "u = 0"
      using fmul_Num_eq_Num [of 0 l u] by auto
    moreover from v False l have "v = 0"
      by (simp add: fsub_def)
    ultimately show ?thesis
      using ih a b False by (simp add: b_sum_def)
  qed
qed

lemma zero_tp_plus_fp:
  assumes "length labels = length probs"
    and "fadd (m_tp (calculate_metrics probs labels B)) (m_fp (calculate_metrics probs labels B)) = Num 0"
  shows "m_tp (calculate_metrics probs labels B) = Num 0"
    and "m_precision (calculate_metrics probs labels B) = NaN"
    and "m_f1 (calculate_metrics probs labels B) = NaN"
proof -
  let ?bs = "t_gt probs (Num 0.5)"
  let ?tp = "t_sum (t_mul (t_float ?bs) labels)"
  let ?fp = "t_sum (t_mul (t_float ?bs) (t_rsub (Num 1) labels))"
  have tp: "m_tp (calculate_metrics probs labels B) = ?tp"
    and fp: "m_fp (calculate_metrics probs labels B) = ?fp"
    unfolding calculate_metrics_def Let_def by simp_all
  from assms(2) have "fadd ?tp ?fp = Num 0"
    unfolding tp fp .
  from fadd_eq_Num [OF this] obtain a b where a: "?tp = Num a" and b: "?fp = Num b" and "0 = a + b"
    by blast
  moreover have "length ?bs = length labels"
    using assms(1) by (simp add: t_gt_def)
  from tp_fp_count [OF this a b] have "a + b = real (b_sum ?bs)" "b_sum ?bs = 0 \<longrightarrow> a = 0"
    by simp_all
  ultimately have "a = 0" "b = 0"
    by simp_all
  with a b have z: "?tp = Num 0" "?fp = Num 0"
    by simp_all
  show "m_tp (calculate_metrics probs labels B) = Num 0"
    unfolding tp by (rule z)
  have p: "m_precision (calculate_metrics probs labels B) = fdiv ?tp (fadd ?tp ?fp)"
    unfolding calculate_metrics_def Let_def by simp
  show pn: "m_precision (calculate_metrics probs labels B) = NaN"
    unfolding p z by (simp add: inf_of_sign_def)
  have "m_f1 (calculate_metrics probs labels B) =
      fdiv (fmul (fmul (Num 2) (m_precision (calculate_metrics probs labels B)))
                 (m_recall (calculate_metrics probs labels B)))
           (fadd (m_precision (calculate_metrics probs labels B))
                 (m_recall (calculate_metrics probs labels B)))"
    unfolding calculate_metrics_def Let_def by simp
  then show "m_f1 (calculate_metrics probs labels B) = NaN"
    unfolding pn by simp
qed

text \<open>
  C6. The divisions of the validation step are unguarded: on any batch with TP + FP = 0
  (the forward pass and the loss returning) the step returns and does not raise, and
  the precision it logs and accumulates is NaN, and so is the F1; the epoch's F1 average
  is then NaN as well.
\<close>

theorem validation_step_division_by_zero:
  assumes "model_forward env (state_dict s) False images = Inr probs"
    and "length labels = length probs"
    and "bce_loss env probs labels = Inr loss"
    and "fadd (m_tp (calculate_metrics probs labels (length images)))
              (m_fp (calculate_metrics probs labels (length images))) = Num 0"
  shows "\<exists>s'. validation_step env (images, labels, ids) batch_idx s = Inr s' \<and>
     m_precision (calculate_metrics probs labels (length images)) = NaN \<and>
     m_f1 (calculate_metrics probs labels (length images)) = NaN \<and>
     Log ''val_precision'' NaN \<in> set (calls_since s s') \<and>
     Log ''val_f1'' NaN \<in> set (calls_since s s') \<and>
     Averager_val (precision_val_avg s') = NaN \<and>
     Averager_val (f1_val_avg s') = NaN"
  using assms(1-3) zero_tp_plus_fp(2,3) [OF assms(2) assms(4)]
  by (simp add: validation_step_def forward_def criterion_def calls_since_def Let_def
      Averager_val_def Averager_add_def)

theorem validation_step_division_by_zero_witness:
  "model_forward toy_torch (0::nat) False (fst (toy_batch 0 0 1)) = Inr (concat (fst (toy_batch 0 0 1))) \<and>
   length (fst (snd (toy_batch 0 0 1))) = length (concat (fst (toy_batch 0 0 1))) \<and>
   bce_loss toy_torch (concat (fst (toy_batch 0 0 1))) (fst (snd (toy_batch 0 0 1))) = Inr (Num 0) \<and>
   m_tp (calculate_metrics (concat (fst (toy_batch 0 0 1))) (fst (snd (toy_batch 0 0 1))) 2) = Num 0 \<and>
   m_fp (calculate_metrics (concat (fst (toy_batch 0 0 1))) (fst (snd (toy_batch 0 0 1))) 2) = Num 0 \<and>
   (\<exists>s'. validation_step toy_torch (toy_batch 0 0 1) 0
            (LitModel (0::nat) toy_args Map.empty :: (nat, nat \<times> nat) pl_state) = Inr s' \<and>
      Log ''val_precision'' NaN \<in> set (calls s') \<and>
      Log ''val_f1'' NaN \<in> set (calls s') \<and>
      Averager_val (f1_val_avg s') = NaN)"
proof -
  let ?s = "LitModel (0::nat) toy_args Map.empty :: (nat, nat \<times> nat) pl_state"
  let ?b = "toy_batch 0 0 1"
  let ?probs = "concat (fst ?b)"
  let ?labels = "fst (snd ?b)"
  have h1: "model_forward toy_torch (state_dict ?s) False (fst ?b) = Inr ?probs"
    by (simp add: toy_torch_def)
  have h2: "length ?labels = length ?probs"
    by (simp add: toy_batch_def toy_row_def Let_def)
  have h3: "bce_loss toy_torch ?probs ?labels = Inr (Num 0)"
    by (simp add: toy_torch_def)
  have n: "length (fst ?b) = 2"
    by (simp add: toy_batch_def Let_def)
  have b: "(fst ?b, ?labels, snd (snd ?b)) = ?b"
    by simp
  have m: "m_tp (calculate_metrics ?probs ?labels 2) = Num 0"
    "m_fp (calculate_metrics ?probs ?labels 2) = Num 0"
    by (simp_all add: eval_defs eval_nat_numeral)
  then have h4: "fadd (m_tp (calculate_metrics ?probs ?labels (length (fst ?b))))
              (m_fp (calculate_metrics ?probs ?labels (length (fst ?b)))) = Num 0"
    unfolding n by simp
  from validation_step_division_by_zero [OF h1 h2 h3 h4, of "snd (snd ?b)" 0]
  obtain s' where s': "validation_step toy_torch ?b 0 ?s = Inr s'"
    and c: "Log ''val_precision'' NaN \<in> set (calls_since ?s s')"
      "Log ''val_f1'' NaN \<in> set (calls_since ?s s')"
    and f: "Averager_val (f1_val_avg s') = NaN"
    unfolding b by blast
  have "calls s' = calls ?s @ calls_since ?s s'"
    using validation_step_effect(1) [of s' toy_torch ?b 0 ?s] s' by (simp add: final_state_def)
  with c have "Log ''val_precision'' NaN \<in> set (calls s')" "Log ''val_f1'' NaN \<in> set (calls s')"
    by simp_all
  with s' f h1 h2 h3 m show ?thesis
    by (simp add: LitModel_def)
qed

section \<open>The learning-rate schedulers\<close>

lemma count_Scheduler_step_calls:
  "\<forall>c\<in>set cs. is_step_call c \<Longrightarrow> count_list cs (SchedulerStep opt) = 0"
  by (rule count_notin) (auto simp: is_step_call_def)

lemma count_Scheduler_since:
  assumes "calls s' = calls s @ calls_since s s'"
    and "\<forall>c\<in>set (calls_since s s'). is_step_call c"
  shows "count_list (calls s') (SchedulerStep opt) = count_list (calls s) (SchedulerStep opt)"
proof -
  have "count_list (calls s @ calls_since s s') (SchedulerStep opt) =
        count_list (calls s) (SchedulerStep opt)"
    using count_Scheduler_step_calls [OF assms(2)] by simp
  then show ?thesis
    unfolding assms(1) [symmetric] .
qed

lemma call_hook_scheduler_steps:
  assumes "call_hook env ev s = Inr s'"
  shows "count_list (calls s') (SchedulerStep opt) =
         count_list (calls s) (SchedulerStep opt) + (if ev = OnTrainEpochEnd then 1 else 0)"
proof (cases ev)
  case (TrainingStep b i)
  then have s': "s' = final_state (training_step env b i s)"
    using assms by (simp add: call_hook_def final_state_def)
  from training_step_effect(2) [OF s'] have "\<forall>c\<in>set (calls_since s s'). is_step_call c"
    by simp
  from count_Scheduler_since [OF training_step_effect(1) [OF s'] this] TrainingStep
  show ?thesis
    by simp
next
  case OnTrainEpochEnd
  then have "on_train_epoch_end env s = Inr s'"
    using assms by (simp add: call_hook_def)
  then have "calls s' = calls s @ [SchedulerStep Feat, SchedulerStep Head]"
    by (cases rule: on_train_epoch_end_cases [of s env]) auto
  then show ?thesis
    using OnTrainEpochEnd by (cases opt) simp_all
next
  case (ValidationStep b i)
  then have s': "s' = final_state (validation_step env b i s)"
    using assms by (simp add: call_hook_def final_state_def)
  from count_Scheduler_since [OF validation_step_effect(1) [OF s'] validation_step_effect(2) [OF s']]
    ValidationStep
  show ?thesis
    by simp
next
  case OnValidationEpochEnd
  then have "s' = on_validation_epoch_end s"
    using assms by (simp add: call_hook_def)
  then show ?thesis
    using OnValidationEpochEnd by (simp add: on_validation_epoch_end_calls)
qed

lemma run_hooks_scheduler_steps:
  "run_hooks env evs s = Inr s' \<Longrightarrow>
     count_list (calls s') (SchedulerStep opt) =
     count_list (calls s) (SchedulerStep opt) + count_list evs OnTrainEpochEnd"
proof (induction evs arbitrary: s)
  case Nil
  then show ?case by simp
next
  case (Cons ev evs)
  from Cons.prems obtain s1 where h: "call_hook env ev s = Inr s1"
    and r: "run_hooks env evs s1 = Inr s'"
    by (cases "call_hook env ev s") simp_all
  from call_hook_scheduler_steps [OF h, of opt] Cons.IH [OF r] show ?case
    by simp
qed

lemma no_epoch_end_in_training_loop: "count_list (training_loop bs) OnTrainEpochEnd = 0"
  by (rule count_notin) (auto simp: training_loop_def)

lemma no_epoch_end_in_validation_loop: "count_list (validation_loop bs) OnTrainEpochEnd = 0"
  by (rule count_notin) (auto simp: validation_loop_def)

lemmas no_epoch_end_in_loops = no_epoch_end_in_training_loop no_epoch_end_in_validation_loop

lemma fit_epoch_epoch_ends:
  "count_list (fit_epoch env trl vll epoch) OnTrainEpochEnd = 1"
  by (simp add: fit_epoch_def no_epoch_end_in_loops split: option.split)

lemma fit_epochs_epoch_ends:
  "count_list (concat (map (fit_epoch env trl vll) [0..<n])) OnTrainEpochEnd = n"
  by (induction n) (simp_all add: fit_epoch_epoch_ends)

lemma fit_schedule_epoch_ends:
  "count_list (fit_schedule env trl vll max_epochs) OnTrainEpochEnd = max_epochs"
  by (simp add: fit_schedule_def fit_epochs_epoch_ends no_epoch_end_in_loops split: option.split)

lemma configure_optimizers_calls:
  "calls (final_state (configure_optimizers env s)) = calls s @
     [CreateOptimizerV2 Feat ''AdamW'' (lr (hparams s)) (weight_decay (hparams s)),
      CreateOptimizerV2 Head ''AdamW'' (lr_head (hparams s)) (weight_decay (hparams s)),
      OneCycleLR Feat (lr (hparams s)) (epochs (hparams s)) (warmup_pct (hparams s)) False,
      OneCycleLR Head (lr_head (hparams s)) (epochs (hparams s)) (warmup_pct (hparams s)) False]"
  "best_f1 (final_state (configure_optimizers env s)) = best_f1 s"
  "files (final_state (configure_optimizers env s)) = files s"
  "hparams (final_state (configure_optimizers env s)) = hparams s"
  "state_dict (final_state (configure_optimizers env s)) = state_dict s"
  by (simp_all add: configure_optimizers_def final_state_def Let_def split: sum.split)

text \<open>
  C4. Both learning-rate schedulers are stepped once per completed training epoch and
  never per batch: a training step steps no scheduler, a training epoch end that returns
  steps each scheduler once, and a fit of E epochs that returns has stepped each scheduler
  E times.
\<close>

theorem schedulers_step_once_per_epoch:
  "count_list (calls (final_state (training_step env b i s))) (SchedulerStep opt) =
     count_list (calls s) (SchedulerStep opt)
   \<and> (\<forall>s'. on_train_epoch_end env s = Inr s' \<longrightarrow>
         count_list (calls s') (SchedulerStep opt) = count_list (calls s) (SchedulerStep opt) + 1)
   \<and> (\<forall>s'. trainer_fit env E s trl vll = Inr s' \<longrightarrow>
         count_list (calls s') (SchedulerStep opt) = count_list (calls s) (SchedulerStep opt) + E)"
proof -
  define t where "t = final_state (training_step env b i s)"
  from training_step_effect(2) [OF t_def] have "\<forall>c\<in>set (calls_since s t). is_step_call c"
    by simp
  from count_Scheduler_since [OF training_step_effect(1) [OF t_def] this]
  have one: "count_list (calls t) (SchedulerStep opt) = count_list (calls s) (SchedulerStep opt)" .
  have two: "count_list (calls s') (SchedulerStep opt) = count_list (calls s) (SchedulerStep opt) + 1"
    if "on_train_epoch_end env s = Inr s'" for s'
    using call_hook_scheduler_steps [of env OnTrainEpochEnd s s' opt] that
    by (simp add: call_hook_def)
  have three: "count_list (calls s') (SchedulerStep opt) = count_list (calls s) (SchedulerStep opt) + E"
    if fit: "trainer_fit env E s trl vll = Inr s'" for s'
  proof -
    define s0 where "s0 = call_lib (TrainerFit trl vll E) s"
    from fit obtain s1 where c: "configure_optimizers env s0 = Inr s1"
      and r: "run_hooks env (fit_schedule env trl vll E) s1 = Inr s'"
      unfolding trainer_fit_def s0_def
      by (cases "configure_optimizers env (call_lib (TrainerFit trl vll E) s)") simp_all
    from c have "s1 = final_state (configure_optimizers env s0)"
      by (simp add: final_state_def)
    then have "count_list (calls s1) (SchedulerStep opt) = count_list (calls s) (SchedulerStep opt)"
      by (simp add: configure_optimizers_calls s0_def)
    with run_hooks_scheduler_steps [OF r, of opt] show ?thesis
      by (simp add: fit_schedule_epoch_ends)
  qed
  from one two three show ?thesis
    by (simp add: t_def)
qed


text \<open>The run of the small instance in held-out mode: two epochs after the sanity check.\<close>

lemma toy_schedule:
  "fit_schedule toy_torch (fst (train_loaders toy_args)) (snd (train_loaders toy_args)) 2 =
     [ValidationStep (toy_batch 1 1 1) 0, OnValidationEpochEnd,
      TrainingStep (toy_batch 2 0 0) 0, ValidationStep (toy_batch 1 0 0) 0, OnValidationEpochEnd,
      OnTrainEpochEnd,
      TrainingStep (toy_batch 2 0 0) 0, ValidationStep (toy_batch 1 1 1) 0, OnValidationEpochEnd,
      OnTrainEpochEnd]"
  by (simp add: fit_schedule_def fit_epoch_def training_loop_def validation_loop_def
      toy_batches_def train_loaders_def create_dataset_def create_dataloader_def toy_torch_def
      toy_args_def eval_nat_numeral Let_def)

lemma toy_fit:
  "\<exists>s. trainer_fit toy_torch 2 (train_pl_model toy_torch toy_args Map.empty)
          (fst (train_loaders toy_args)) (snd (train_loaders toy_args)) = Inr s \<and>
       state_dict s = 4 \<and> best_f1 s = Num 1 \<and>
       files s ''saved_models/resnet_val.pt'' = Some 2"
  unfolding trainer_fit_def toy_schedule
  by (simp add: train_pl_model_def configure_optimizers_def eval_defs eval_nat_numeral)

theorem schedulers_step_once_per_epoch_witness:
  "\<exists>s'. trainer_fit toy_torch 2 (train_pl_model toy_torch toy_args Map.empty)
          (fst (train_loaders toy_args)) (snd (train_loaders toy_args)) = Inr s' \<and>
        count_list (calls s') (SchedulerStep Feat) = 2 \<and>
        count_list (calls s') (SchedulerStep Head) = 2"
proof -
  let ?s = "train_pl_model toy_torch toy_args Map.empty :: (nat, nat \<times> nat) pl_state"
  from toy_fit obtain s' where
    s': "trainer_fit toy_torch 2 ?s (fst (train_loaders toy_args)) (snd (train_loaders toy_args)) = Inr s'"
    by blast
  have c: "calls ?s = [Print ''Start training'', Print (replicate 25 CHR ''-'')]"
    by (simp add: train_pl_model_def LitModel_def)
  from schedulers_step_once_per_epoch
    [of toy_torch "toy_batch 2 0 0" 0 ?s Feat 2 "fst (train_loaders toy_args)" "snd (train_loaders toy_args)"] s'
  have "count_list (calls s') (SchedulerStep Feat) = 2"
    unfolding c by simp
  moreover from schedulers_step_once_per_epoch
    [of toy_torch "toy_batch 2 0 0" 0 ?s Head 2 "fst (train_loaders toy_args)" "snd (train_loaders toy_args)"] s'
  have "count_list (calls s') (SchedulerStep Head) = 2"
    unfolding c by simp
  ultimately show ?thesis
    using s' by blast
qed

section \<open>Lemmas on the driver\<close>

lemma run_hooks_append:
  "run_hooks env (xs @ ys) s =
     (case run_hooks env xs s of Inl e \<Rightarrow> Inl e | Inr s1 \<Rightarrow> run_hooks env ys s1)"
  by (induction xs arbitrary: s) (simp_all split: sum.split)

lemma call_hook_files:
  assumes "s' = final_state (call_hook env ev s)"
  shows "(best_f1 s' = best_f1 s \<and> files s' = files s) \<or> fgt (best_f1 s') (best_f1 s)"
proof (cases "ev = OnValidationEpochEnd")
  case True
  then have "s' = on_validation_epoch_end s"
    using assms by (simp add: call_hook_val_end)
  then show ?thesis
    by (simp add: on_validation_epoch_end_fields)
next
  case False
  from call_hook_other(3,4) [OF False assms] show ?thesis
    by simp
qed

lemma run_hooks_best_mono:
  assumes "s' = final_state (run_hooks env evs s)"
  shows "best_f1 s' = best_f1 s \<or> fgt (best_f1 s') (best_f1 s)"
  using run_hooks_trace [OF assms] spec_best_f1_mono [of "best_f1 s" "epoch_f1s (calls_since s s')"]
  by simp

text \<open>While the best F1 stays what it is, no checkpoint is written.\<close>

lemma run_hooks_files:
  assumes "s' = final_state (run_hooks env evs s)" and "best_f1 s' = best_f1 s"
  shows "files s' = files s"
  using assms
proof (induction evs arbitrary: s)
  case Nil
  then show ?case by (simp add: final_state_def)
next
  case (Cons ev evs)
  define s1 where "s1 = final_state (call_hook env ev s)"
  note h = call_hook_files [OF s1_def]
  show ?case
  proof (cases "call_hook env ev s")
    case (Inl e)
    then have "s' = s1"
      using Cons.prems(1) by (simp add: s1_def run_hooks_step)
    with h Cons.prems(2) show ?thesis
      by auto
  next
    case (Inr s1')
    then have "s1' = s1"
      by (simp add: s1_def final_state_def)
    with Inr have s': "s' = final_state (run_hooks env evs s1)"
      using Cons.prems(1) by (simp add: run_hooks_step)
    from run_hooks_best_mono [OF s'] have m: "best_f1 s' = best_f1 s1 \<or> fgt (best_f1 s') (best_f1 s1)" .
    have "\<not> fgt (best_f1 s1) (best_f1 s)"
    proof
      assume g: "fgt (best_f1 s1) (best_f1 s)"
      from m show False
      proof
        assume "best_f1 s' = best_f1 s1"
        with g Cons.prems(2) show False by simp
      next
        assume "fgt (best_f1 s') (best_f1 s1)"
        from fgt_trans [OF this g] Cons.prems(2) show False by simp
      qed
    qed
    with h have k: "best_f1 s1 = best_f1 s" "files s1 = files s"
      by auto
    from Cons.IH [OF s'] k Cons.prems(2) show ?thesis
      by simp
  qed
qed

lemma train_pl_model_fields:
  "calls (train_pl_model env a fs) = [Print ''Start training'', Print (replicate 25 CHR ''-'')]"
  "files (train_pl_model env a fs) = fs"
  "hparams (train_pl_model env a fs) = a"
  "best_f1 (train_pl_model env a fs) = Num 0"
  by (simp_all add: train_pl_model_def LitModel_def Let_def)

text \<open>The state in which the trainer starts to call the hooks.\<close>

lemma configured_fields:
  assumes "configure_optimizers env (call_lib (TrainerFit trl vll (epochs a)) (train_pl_model env a fs)) = Inr s0"
  shows "calls s0 =
      [Print ''Start training'', Print (replicate 25 CHR ''-''), TrainerFit trl vll (epochs a),
       CreateOptimizerV2 Feat ''AdamW'' (lr a) (weight_decay a),
       CreateOptimizerV2 Head ''AdamW'' (lr_head a) (weight_decay a),
       OneCycleLR Feat (lr a) (epochs a) (warmup_pct a) False,
       OneCycleLR Head (lr_head a) (epochs a) (warmup_pct a) False]"
    and "files s0 = fs" and "hparams s0 = a" and "best_f1 s0 = Num 0"
proof -
  have "s0 = final_state (configure_optimizers env
      (call_lib (TrainerFit trl vll (epochs a)) (train_pl_model env a fs)))"
    using assms by (simp add: final_state_def)
  then show "calls s0 =
      [Print ''Start training'', Print (replicate 25 CHR ''-''), TrainerFit trl vll (epochs a),
       CreateOptimizerV2 Feat ''AdamW'' (lr a) (weight_decay a),
       CreateOptimizerV2 Head ''AdamW'' (lr_head a) (weight_decay a),
       OneCycleLR Feat (lr a) (epochs a) (warmup_pct a) False,
       OneCycleLR Head (lr_head a) (epochs a) (warmup_pct a) False]"
    and "files s0 = fs" and "hparams s0 = a" and "best_f1 s0 = Num 0"
    by (simp_all add: configure_optimizers_calls train_pl_model_fields)
qed

lemma trainer_fit_Inr:
  assumes "trainer_fit env E s trl vll = Inr s'"
  obtains s0 where "configure_optimizers env (call_lib (TrainerFit trl vll E) s) = Inr s0"
    and "run_hooks env (fit_schedule env trl vll E) s0 = Inr s'"
  using assms unfolding trainer_fit_def
  by (cases "configure_optimizers env (call_lib (TrainerFit trl vll E) s)") simp_all

lemma train_held_out:
  assumes "\<not> train_full a"
  shows "train env a fs =
     (case trainer_fit env (epochs a) (train_pl_model env a fs)
             (fst (train_loaders a)) (snd (train_loaders a)) of
        Inl e \<Rightarrow> Inl e
      | Inr s1 \<Rightarrow>
          (case files s1 (val_path a) of
             None \<Rightarrow> Inl (FileNotFoundError (val_path a),
                        call_lib (TorchLoad (val_path a))
                          (print_value ''Best validation f1: '' best_f1 s1))
           | Some sd \<Rightarrow> Inr (sd, load_state_dict sd
                        (call_lib (TorchLoad (val_path a))
                          (print_value ''Best validation f1: '' best_f1 s1)))))"
  using assms
  by (simp add: train_def torch_load_def Let_def split: prod.split sum.split option.split)

lemma train_full_mode:
  assumes "train_full a"
  shows "train env a fs =
     (case trainer_fit env (epochs a) (train_pl_model env a fs) (fst (train_loaders a)) None of
        Inl e \<Rightarrow> Inl e
      | Inr s1 \<Rightarrow> Inr (state_dict s1, torch_save (state_dict s1) (full_path a) s1))"
  using assms
  by (simp add: train_def Let_def split: prod.split sum.split)

section \<open>Full mode\<close>

lemma call_hook_training:
  assumes "is_training_event ev" and "s' = final_state (call_hook env ev s)"
  shows "calls s' = calls s @ calls_since s s'"
    and "\<forall>c\<in>set (calls_since s s').
           (is_step_call c \<and> c \<noteq> ModelEval) \<or> c = SchedulerStep Feat \<or> c = SchedulerStep Head"
    and "files s' = files s"
proof -
  have "calls s' = calls s @ calls_since s s' \<and>
    (\<forall>c\<in>set (calls_since s s').
       (is_step_call c \<and> c \<noteq> ModelEval) \<or> c = SchedulerStep Feat \<or> c = SchedulerStep Head) \<and>
    files s' = files s"
  proof (cases ev)
    case (TrainingStep b i)
    then show ?thesis
      using training_step_effect [of s' env b i s] assms(2) by (simp add: call_hook_def)
  next
    case OnTrainEpochEnd
    then show ?thesis
      using on_train_epoch_end_effect [of s' env s] assms(2) by (auto simp: call_hook_def)
  next
    case (ValidationStep b i)
    then show ?thesis using assms(1) by (simp add: is_training_event_def)
  next
    case OnValidationEpochEnd
    then show ?thesis using assms(1) by (simp add: is_training_event_def)
  qed
  then show "calls s' = calls s @ calls_since s s'"
    and "\<forall>c\<in>set (calls_since s s').
           (is_step_call c \<and> c \<noteq> ModelEval) \<or> c = SchedulerStep Feat \<or> c = SchedulerStep Head"
    and "files s' = files s"
    by simp_all
qed

lemma run_hooks_training:
  assumes "\<forall>ev\<in>set evs. is_training_event ev" and "s' = final_state (run_hooks env evs s)"
  shows "calls s' = calls s @ calls_since s s' \<and>
    (\<forall>c\<in>set (calls_since s s').
       (is_step_call c \<and> c \<noteq> ModelEval) \<or> c = SchedulerStep Feat \<or> c = SchedulerStep Head) \<and>
    files s' = files s"
  using assms
proof (induction evs arbitrary: s)
  case Nil
  then show ?case by (simp add: final_state_def)
next
  case (Cons ev evs)
  define s1 where "s1 = final_state (call_hook env ev s)"
  from Cons.prems(1) have ev: "is_training_event ev" and evs: "\<forall>ev\<in>set evs. is_training_event ev"
    by simp_all
  note h = call_hook_training [OF ev s1_def]
  show ?case
  proof (cases "call_hook env ev s")
    case (Inl e)
    then have "s' = s1"
      using Cons.prems(2) by (simp add: s1_def run_hooks_step)
    then show ?thesis using h by simp
  next
    case (Inr s1')
    then have "s1' = s1"
      by (simp add: s1_def final_state_def)
    with Inr have "s' = final_state (run_hooks env evs s1)"
      using Cons.prems(2) by (simp add: run_hooks_step)
    from Cons.IH [OF evs this] have ih:
      "calls s' = calls s1 @ calls_since s1 s'"
      "\<forall>c\<in>set (calls_since s1 s').
         (is_step_call c \<and> c \<noteq> ModelEval) \<or> c = SchedulerStep Feat \<or> c = SchedulerStep Head"
      "files s' = files s1"
      by simp_all
    note t = calls_since_trans [OF h(1) ih(1)]
    show ?thesis
      using t(2) h(2,3) ih(2,3) by (auto simp: t(1))
  qed
qed

lemma training_loop_events: "\<forall>ev\<in>set (training_loop bs). is_training_event ev"
  by (auto simp: training_loop_def is_training_event_def)

lemma fit_schedule_no_validation:
  "\<forall>ev\<in>set (fit_schedule env trl None max_epochs). is_training_event ev"
  using training_loop_events
  by (auto simp: fit_schedule_def fit_epoch_def is_training_event_def)

lemma paths_differ: "full_path a \<noteq> val_path a"
proof
  assume "full_path a = val_path a"
  then have "length (full_path a) = length (val_path a)"
    by simp
  then show False
    by (simp add: full_path_def val_path_def)
qed

text \<open>
  C7. In full mode the training dataset is built from the train directories followed by
  the validation directories (as a set, their union), the trainer is given no validation
  loader and no validation step runs, the only checkpoint written is
  saved_models/{model}_full.pt (the _val.pt path is left as it was), nothing is loaded,
  and the model returned is the one in memory, whose parameters are those just saved.
\<close>

theorem full_mode_run:
  assumes "train_full a" and "train env a fs = Inr (m, s)"
  shows "\<exists>middle.
      calls s =
        [Print ''Start training'', Print (replicate 25 CHR ''-''),
         TrainerFit
           (create_dataloader (create_dataset (train_dirs a @ val_dirs a) True)
              (batch_size a) (num_workers a) True)
           None (epochs a),
         CreateOptimizerV2 Feat ''AdamW'' (lr a) (weight_decay a),
         CreateOptimizerV2 Head ''AdamW'' (lr_head a) (weight_decay a),
         OneCycleLR Feat (lr a) (epochs a) (warmup_pct a) False,
         OneCycleLR Head (lr_head a) (epochs a) (warmup_pct a) False]
        @ middle @ [TorchSave (full_path a)] \<and>
      (\<forall>c\<in>set middle.
         (is_step_call c \<and> c \<noteq> ModelEval) \<or> c = SchedulerStep Feat \<or> c = SchedulerStep Head) \<and>
      filter is_save (calls s) = [TorchSave (full_path a)] \<and>
      filter is_load (calls s) = [] \<and>
      files s = fs(full_path a \<mapsto> m) \<and>
      files s (val_path a) = fs (val_path a) \<and>
      state_dict s = m \<and>
      set (train_dirs a @ val_dirs a) = set (train_dirs a) \<union> set (val_dirs a)"
proof -
  let ?trl = "create_dataloader (create_dataset (train_dirs a @ val_dirs a) True)
              (batch_size a) (num_workers a) True"
  have l: "fst (train_loaders a) = ?trl"
    using assms(1) by (simp add: train_loaders_def Let_def)
  from assms obtain s1 where
    fit: "trainer_fit env (epochs a) (train_pl_model env a fs) ?trl None = Inr s1"
    and m: "m = state_dict s1" and s: "s = torch_save (state_dict s1) (full_path a) s1"
    unfolding train_full_mode [OF assms(1)] l
    by (cases "trainer_fit env (epochs a) (train_pl_model env a fs) ?trl None") auto
  from fit obtain s0 where
    c: "configure_optimizers env (call_lib (TrainerFit ?trl None (epochs a)) (train_pl_model env a fs))
          = Inr s0"
    and r: "run_hooks env (fit_schedule env ?trl None (epochs a)) s0 = Inr s1"
    by (rule trainer_fit_Inr)
  note s0 = configured_fields [OF c]
  from r have "s1 = final_state (run_hooks env (fit_schedule env ?trl None (epochs a)) s0)"
    by (simp add: final_state_def)
  from run_hooks_training [OF fit_schedule_no_validation this] have s1:
    "calls s1 = calls s0 @ calls_since s0 s1"
    "\<forall>c\<in>set (calls_since s0 s1).
       (is_step_call c \<and> c \<noteq> ModelEval) \<or> c = SchedulerStep Feat \<or> c = SchedulerStep Head"
    "files s1 = files s0"
    by simp_all
  from s1(2) have q: "\<forall>c\<in>set (calls_since s0 s1).
      is_step_call c \<or> c = SchedulerStep Feat \<or> c = SchedulerStep Head"
    by auto
  have "calls s = calls s0 @ calls_since s0 s1 @ [TorchSave (full_path a)]"
    unfolding s using s1(1) by simp
  moreover have "filter is_save (calls s) = [TorchSave (full_path a)]"
    unfolding s using s1(1) s0(1) quiet_calls(3) [OF q] by (simp add: is_save_def)
  moreover have "filter is_load (calls s) = []"
    unfolding s using s1(1) s0(1) quiet_calls(4) [OF q] by (simp add: is_load_def)
  moreover have "files s = fs(full_path a \<mapsto> m)"
    unfolding s m using s1(3) s0(2) by simp
  moreover from this have "files s (val_path a) = fs (val_path a)"
    using paths_differ [of a] by simp
  moreover have "state_dict s = m"
    unfolding s m by simp
  ultimately show ?thesis
    using s1(2) unfolding s0(1) by auto
qed


lemma toy_full_schedule:
  "fit_schedule toy_torch (fst (train_loaders (toy_args\<lparr>train_full := True\<rparr>))) None 2 =
     [TrainingStep (toy_batch 2 0 0) 0, OnTrainEpochEnd,
      TrainingStep (toy_batch 2 0 0) 0, OnTrainEpochEnd]"
  by (simp add: fit_schedule_def fit_epoch_def training_loop_def
      toy_batches_def train_loaders_def create_dataset_def create_dataloader_def toy_torch_def
      toy_args_def eval_nat_numeral Let_def)

lemma toy_full_fit:
  "\<exists>s. trainer_fit toy_torch 2 (train_pl_model toy_torch (toy_args\<lparr>train_full := True\<rparr>) Map.empty)
          (fst (train_loaders (toy_args\<lparr>train_full := True\<rparr>))) None = Inr s \<and>
       state_dict s = 4"
  unfolding trainer_fit_def toy_full_schedule
  by (simp add: train_pl_model_def configure_optimizers_def eval_defs eval_nat_numeral)

theorem full_mode_run_witness:
  "train_full (toy_args\<lparr>train_full := True\<rparr>) \<and>
   (\<exists>s. train toy_torch (toy_args\<lparr>train_full := True\<rparr>) Map.empty = Inr (4, s) \<and>
      filter is_save (calls s) = [TorchSave ''saved_models/resnet_full.pt''] \<and>
      filter is_load (calls s) = [] \<and>
      files s = [''saved_models/resnet_full.pt'' \<mapsto> 4] \<and>
      files s ''saved_models/resnet_val.pt'' = None \<and>
      state_dict s = 4)"
proof -
  let ?a = "toy_args\<lparr>train_full := True\<rparr>"
  have f: "train_full ?a"
    by simp
  have e: "epochs ?a = 2"
    by (simp add: toy_args_def)
  have p: "full_path ?a = ''saved_models/resnet_full.pt''" "val_path ?a = ''saved_models/resnet_val.pt''"
    by (simp_all add: full_path_def val_path_def toy_args_def)
  from toy_full_fit obtain s1 where
    "trainer_fit toy_torch 2 (train_pl_model toy_torch ?a Map.empty) (fst (train_loaders ?a)) None
       = Inr s1" and "state_dict s1 = 4"
    by blast
  then have t: "train toy_torch ?a Map.empty = Inr (4, torch_save 4 (full_path ?a) s1)"
    unfolding train_full_mode [OF f] e by simp
  from full_mode_run [OF f t] show ?thesis
    using f t unfolding p by auto
qed

section \<open>Held-out mode\<close>

text \<open>
  C8. In held-out mode the driver, after the fit loop, loads the parameters stored at the
  best-F1 checkpoint path into the model and returns that model. When the hooks of the
  run split at a validation epoch end that raised the best F1 to the value that is still
  the best when the fit returns (the best epoch, followed by any further epochs), the
  parameters returned are those the model had at that epoch end, whatever the parameters
  after the last epoch are.
\<close>

theorem held_out_returns_best_checkpoint:
  assumes "\<not> train_full a"
    and "train_loaders a = (trl, vll)"
    and "configure_optimizers env
           (call_lib (TrainerFit trl vll (epochs a)) (train_pl_model env a fs)) = Inr s0"
    and "fit_schedule env trl vll (epochs a) = evs1 @ OnValidationEpochEnd # evs2"
    and "run_hooks env evs1 s0 = Inr s1"
    and "fgt (Averager_val (f1_val_avg s1)) (best_f1 s1)"
    and "run_hooks env evs2 (on_validation_epoch_end s1) = Inr s2"
    and "best_f1 s2 = Averager_val (f1_val_avg s1)"
  shows "\<exists>s. train env a fs = Inr (state_dict s1, s) \<and>
           state_dict s = state_dict s1 \<and>
           files s (val_path a) = Some (state_dict s1) \<and>
           calls s = calls s2 @ [PrintValue ''Best validation f1: '' (best_f1 s2),
                                 TorchLoad (val_path a), LoadStateDict]"
proof -
  have fit: "trainer_fit env (epochs a) (train_pl_model env a fs) trl vll = Inr s2"
    using assms(3,4,5,7) by (simp add: trainer_fit_def run_hooks_append call_hook_def)
  have "s1 = final_state (run_hooks env evs1 s0)"
    using assms(5) by (simp add: final_state_def)
  from run_hooks_trace [OF this] configured_fields(3) [OF assms(3)] have h1: "hparams s1 = a"
    by simp
  define t where "t = on_validation_epoch_end s1"
  have t: "files t (val_path a) = Some (state_dict s1)" "best_f1 t = Averager_val (f1_val_avg s1)"
    using assms(6) h1 by (simp_all add: t_def on_validation_epoch_end_fields)
  have "s2 = final_state (run_hooks env evs2 t)"
    using assms(7) by (simp add: final_state_def t_def)
  from run_hooks_files [OF this] assms(8) t(2) have "files s2 = files t"
    by simp
  with t(1) have f: "files s2 (val_path a) = Some (state_dict s1)"
    by simp
  show ?thesis
    unfolding train_held_out [OF assms(1)] using assms(2) fit f by simp
qed


lemma Inr_final_state: "r = Inr s \<Longrightarrow> s = final_state r"
  by (simp add: final_state_def)

text \<open>The run of the small instance up to the validation steps of its first epoch.\<close>

lemma toy_run_to_best_epoch:
  "\<exists>s. run_hooks toy_torch
          [ValidationStep (toy_batch 1 1 1) 0, OnValidationEpochEnd,
           TrainingStep (toy_batch 2 0 0) 0, ValidationStep (toy_batch 1 0 0) 0]
          (final_state (configure_optimizers toy_torch
             (call_lib (TrainerFit (fst (train_loaders toy_args)) (snd (train_loaders toy_args)) 2)
                (train_pl_model toy_torch toy_args Map.empty)))) = Inr s \<and>
       state_dict s = 2 \<and> best_f1 s = Num 0.5 \<and> Averager_val (f1_val_avg s) = Num 1"
  by (simp add: train_pl_model_def configure_optimizers_def eval_defs eval_nat_numeral)

theorem held_out_returns_best_checkpoint_witness:
  "\<not> train_full toy_args \<and>
   (\<exists>s. train toy_torch toy_args Map.empty = Inr (2, s) \<and> state_dict s = 2 \<and>
      files s ''saved_models/resnet_val.pt'' = Some 2) \<and>
   (\<exists>s2. trainer_fit toy_torch 2 (train_pl_model toy_torch toy_args Map.empty)
            (fst (train_loaders toy_args)) (snd (train_loaders toy_args)) = Inr s2 \<and>
      state_dict s2 = 4)"
proof -
  let ?trl = "fst (train_loaders toy_args)"
  let ?vll = "snd (train_loaders toy_args)"
  let ?pl = "train_pl_model toy_torch toy_args Map.empty :: (nat, nat \<times> nat) pl_state"
  let ?evs1 = "[ValidationStep (toy_batch 1 1 1) 0, OnValidationEpochEnd,
      TrainingStep (toy_batch 2 0 0) 0, ValidationStep (toy_batch 1 0 0) 0]"
  let ?evs2 = "[OnTrainEpochEnd,
      TrainingStep (toy_batch 2 0 0) 0, ValidationStep (toy_batch 1 1 1) 0, OnValidationEpochEnd,
      OnTrainEpochEnd]"
  have e: "epochs toy_args = 2"
    by (simp add: toy_args_def)
  have h1: "\<not> train_full toy_args"
    by (simp add: toy_args_def)
  have h2: "train_loaders toy_args = (?trl, ?vll)"
    by simp
  from toy_fit obtain s2 where fit: "trainer_fit toy_torch 2 ?pl ?trl ?vll = Inr s2"
    and v2: "state_dict s2 = 4" "best_f1 s2 = Num 1"
    by blast
  from fit obtain s0 where c: "configure_optimizers toy_torch (call_lib (TrainerFit ?trl ?vll 2) ?pl) = Inr s0"
    and r: "run_hooks toy_torch (fit_schedule toy_torch ?trl ?vll 2) s0 = Inr s2"
    by (rule trainer_fit_Inr)
  have h3: "configure_optimizers toy_torch (call_lib (TrainerFit ?trl ?vll (epochs toy_args)) ?pl) = Inr s0"
    unfolding e by (rule c)
  have h4: "fit_schedule toy_torch ?trl ?vll (epochs toy_args) = ?evs1 @ OnValidationEpochEnd # ?evs2"
    unfolding e toy_schedule by simp
  from toy_run_to_best_epoch obtain s1 where h5: "run_hooks toy_torch ?evs1 s0 = Inr s1"
    and v1: "state_dict s1 = 2" "best_f1 s1 = Num 0.5" "Averager_val (f1_val_avg s1) = Num 1"
    unfolding Inr_final_state [OF c, symmetric] by blast
  have h6: "fgt (Averager_val (f1_val_avg s1)) (best_f1 s1)"
    unfolding v1 by simp
  have "run_hooks toy_torch (?evs1 @ OnValidationEpochEnd # ?evs2) s0 = Inr s2"
    using r h4 unfolding e by simp
  then have h7: "run_hooks toy_torch ?evs2 (on_validation_epoch_end s1) = Inr s2"
    unfolding run_hooks_append h5 by (simp add: call_hook_def)
  have h8: "best_f1 s2 = Averager_val (f1_val_avg s1)"
    unfolding v1 v2 by simp
  have p: "val_path toy_args = ''saved_models/resnet_val.pt''"
    by (simp add: val_path_def toy_args_def)
  from held_out_returns_best_checkpoint [OF h1 h2 h3 h4 h5 h6 h7 h8]
  have "\<exists>s. train toy_torch toy_args Map.empty = Inr (2, s) \<and> state_dict s = 2 \<and>
      files s ''saved_models/resnet_val.pt'' = Some 2"
    unfolding p v1 by blast
  with h1 fit v2 show ?thesis
    by blast
qed

end
